theory Spec2Isabelle
  imports Main "HOL-Library.Word" "HOL-Library.Code_Target_Numeral"
begin

section \<open>Values exchanged with the bridging SDK and the providers\<close>

text \<open>
  The scripts are straight-line sequences of awaited calls into \<open>arb-ts\<close>, \<open>ethers\<close>
  and \<open>hardhat\<close>. A run is determined by what each of these calls answers, so a run is
  modelled as a function of the answers: a record with one field per awaited call, each
  either a rejection (\<open>Inl\<close> the error) or the resolved value (\<open>Inr\<close>). A call that a
  script issues twice (the balance before and after, \<open>greet\<close>) has one field per place.
  The arguments a call is issued with are recorded in the trace of the run.

  The constants that a script builds before it calls \<open>main\<close> (providers, wallets, the
  amounts) are given: the run that is modelled is \<open>main\<close> and the promise chain of the
  entry point.

  An ethers \<open>BigNumber\<close> is an arbitrary-precision integer and is modelled by \<open>int\<close>;
  \<open>mul\<close>, \<open>add\<close> and \<open>lt\<close> are exact. A JavaScript string is modelled by the list of its
  UTF-8 bytes.
\<close>

datatype error = Error string

record receipt =
  transactionHash :: string

text \<open>The withdrawal event object of \<open>arb-ts\<close>, which the scripts only print: its fields by name.\<close>

datatype L2ToL1EventResult = L2ToL1EventResult "(string \<times> string) list"

datatype logarg = Str string | Obj "L2ToL1EventResult option"

datatype call =
    BridgeInit
  | GetL2EthBalance
  | DepositETH int
  | InboxDepositEth int int
  | TxWait string
  | GetInboxSeqNumFromContractTransaction receipt
  | CalculateL2TransactionHash "int option"
  | CalculateL2RetryableTransactionHash "int option"
  | WaitForTransaction string "nat option" "nat option"
  | WithdrawETH int
  | GetWithdrawalsInL2Transaction receipt
  | GetBalance string
  | ArbSysWithdrawEth string int
  | GetContractFactory string
  | Deploy "string list"
  | Deployed string
  | UpdateL2Target string
  | UpdateL1Target string
  | Greet
  | GetTxnSubmissionPrice nat
  | GetGasPrice
  | SetGreetingInL2 string int int int int

datatype event =
    Call call
  | ConsoleLog "logarg list"
  | ConsoleWarn "logarg list"
  | ConsoleError error
  | Throw error
  | ProcessExit nat

datatype outcome = Returned | Threw error | Exited nat

type_synonym run = "event list \<times> outcome"

record sdk =
  bridge_init :: "error + unit"
  getL2EthBalance_initial :: "error + int"
  getL2EthBalance_updated :: "error + int"
  depositETH :: "error + unit"
  inbox_depositEth :: "error + unit"
  depositTx_wait :: "error + receipt"
  getInboxSeqNumFromContractTransaction :: "error + int list option"
  calculateL2TransactionHash :: "error + string"
  waitForTransaction :: "error + receipt"
  l2Wallet_address :: string
  inbox_addr :: string
  withdrawETH :: "error + unit"
  arbSys_withdrawEth :: "error + unit"
  withdrawTx_wait :: "error + receipt"
  getWithdrawalsInL2Transaction :: "error + L2ToL1EventResult list"
  getBalance_initial :: "error + int"
  getBalance_updated :: "error + int"
  getContractFactory_L1 :: "error + unit"
  l1Greeter_deploy :: "error + string"
  l1Greeter_deployed :: "error + unit"
  getContractFactory_L2 :: "error + unit"
  l2Greeter_deploy :: "error + string"
  l2Greeter_deployed :: "error + unit"
  updateL2Target :: "error + unit"
  updateL1Tx_wait :: "error + unit"
  updateL1Target :: "error + unit"
  updateL2Tx_wait :: "error + unit"
  greet_current :: "error + string"
  getTxnSubmissionPrice :: "error + int \<times> int"
  timeNow :: nat
  getGasPrice :: "error + int"
  setGreetingInL2 :: "error + unit"
  setGreetingTx_wait :: "error + receipt"
  calculateL2RetryableTransactionHash :: "error + string"
  toTimeString :: string
  greet_updated :: "error + string"

section \<open>Control flow of an async script\<close>

text \<open>
  \<open>emit\<close> puts an event in front of the rest of the run. \<open>await\<close> records the call
  that is issued; a rejected promise is rethrown at the \<open>await\<close> (the event \<open>Throw\<close>)
  and ends \<open>main\<close>, a resolved one hands its value to the rest of \<open>main\<close>.
  \<open>process_exit\<close> ends the process on the spot.
\<close>

definition emit :: "event \<Rightarrow> run \<Rightarrow> run" where
  "emit ev r = (ev # fst r, snd r)"

definition returned :: run where
  "returned = ([], Returned)"

definition throw :: "error \<Rightarrow> run" where
  "throw e = ([Throw e], Threw e)"

definition process_exit :: "nat \<Rightarrow> run" where
  "process_exit n = ([ProcessExit n], Exited n)"

definition await :: "call \<Rightarrow> error + 'a \<Rightarrow> ('a \<Rightarrow> run) \<Rightarrow> run" where
  "await c r k = emit (Call c) (case r of Inl e \<Rightarrow> throw e | Inr v \<Rightarrow> k v)"

definition console_log :: "logarg list \<Rightarrow> run \<Rightarrow> run" where
  "console_log args r = emit (ConsoleLog args) r"

definition console_warn :: "logarg list \<Rightarrow> run \<Rightarrow> run" where
  "console_warn args r = emit (ConsoleWarn args) r"

text \<open>
  The entry point of every script:
  \<^verbatim>\<open>main().then(() => process.exit(0)).catch(error => { console.error(error); process.exit(1); })\<close>
  The result is the trace of the whole process and its exit status.
\<close>

definition script :: "run \<Rightarrow> event list \<times> nat" where
  "script m =
     (case snd m of
        Returned \<Rightarrow> (fst m @ [ProcessExit 0], 0)
      | Threw e \<Rightarrow> (fst m @ [ConsoleError e, ProcessExit 1], 1)
      | Exited n \<Rightarrow> (fst m, n))"

section \<open>Library functions the scripts apply to their values\<close>

text \<open>\<open>arr[0]\<close>: the first element, \<open>undefined\<close> on an empty array.\<close>

definition index0 :: "'a list \<Rightarrow> 'a option" where
  "index0 xs = (case xs of [] \<Rightarrow> None | x # _ \<Rightarrow> Some x)"

text \<open>Decimal rendering, as \<open>BigNumber.toString()\<close> and \<open>Number\<close> in a template literal.\<close>

fun string_of_nat :: "nat \<Rightarrow> string" where
  "string_of_nat n =
     (if n < 10 then [char_of (48 + n)]
      else string_of_nat (n div 10) @ [char_of (48 + n mod 10)])"

declare string_of_nat.simps [simp del]

definition toString :: "int \<Rightarrow> string" where
  "toString i = (if i < 0 then CHR ''-'' # string_of_nat (nat (- i)) else string_of_nat (nat i))"

text \<open>
  \<open>BigNumber.toNumber()\<close> throws once the value does not fit the 53 bits of a safe
  JavaScript integer. The script subtracts the clock (seconds since the epoch, a natural
  number) from the result; for the non-negative timestamps that a chain returns the
  difference stays within 53 bits and is exact.
\<close>

definition toNumber :: "int \<Rightarrow> error + int" where
  "toNumber i = (if \<bar>i\<bar> < 2 ^ 53 then Inr i else Inl (Error ''overflow''))"

text \<open>\<open>parseEther\<close> of the three literals of the scripts, in wei (18 decimals).\<close>

definition ethToL2DepositAmount :: int where
  "ethToL2DepositAmount = 100000000000000"

definition ethFromL2WithdrawAmount_lib :: int where
  "ethFromL2WithdrawAmount_lib = 1000000000000"

definition ethFromL2WithdrawAmount_arbsys :: int where
  "ethFromL2WithdrawAmount_arbsys = 1000000000000000"

section \<open>deposit-via-lib.ts\<close>

definition deposit_via_lib_main :: "sdk \<Rightarrow> run" where
  "deposit_via_lib_main env =
     console_log [Str ''Deposit Eth via arb-ts''] (
     await BridgeInit (bridge_init env) (\<lambda>bridge.
     await GetL2EthBalance (getL2EthBalance_initial env) (\<lambda>l2WalletInitialEthBalance.
     await (DepositETH ethToL2DepositAmount) (depositETH env) (\<lambda>depositTx.
     await (TxWait ''depositTx'') (depositTx_wait env) (\<lambda>rec.
     console_warn [Str ''deposit L1 receipt is:'', Str (transactionHash rec)] (
     await (GetInboxSeqNumFromContractTransaction rec)
           (getInboxSeqNumFromContractTransaction env) (\<lambda>seqNumArr.
     case seqNumArr of
       None \<Rightarrow> throw (Error ''no seq num'')
     | Some arr \<Rightarrow>
     console_log [Str ''inbox sequence number is found!''] (
     let seqNum = index0 arr in
     await (CalculateL2TransactionHash seqNum) (calculateL2TransactionHash env) (\<lambda>l2TxHash.
     console_log [Str (''l2TxHash is: '' @ l2TxHash)] (
     console_log [Str ''waiting for l2 transaction:''] (
     await (WaitForTransaction l2TxHash None (Some (1000 * 60 * 12)))
           (waitForTransaction env) (\<lambda>l2TxnRec.
     console_log [Str (''L2 transaction found! '' @ transactionHash l2TxnRec)] (
     await GetL2EthBalance (getL2EthBalance_updated env) (\<lambda>l2WalletUpdatedEthBalance.
     console_log [Str (''your L2 balance is updated from ''
                       @ toString l2WalletInitialEthBalance @ '' to ''
                       @ toString l2WalletUpdatedEthBalance)] (
     returned)))))))))))))))"

definition deposit_via_lib :: "sdk \<Rightarrow> event list \<times> nat" where
  "deposit_via_lib env = script (deposit_via_lib_main env)"

section \<open>deposit-via-inbox.ts\<close>

definition deposit_via_inbox_main :: "sdk \<Rightarrow> run" where
  "deposit_via_inbox_main env =
     console_log [Str (''('' @ [CHR 0x27] @ ''Deposit Eth via the Inbox'' @ [CHR 0x27] @ '')'')] (
     await BridgeInit (bridge_init env) (\<lambda>bridge.
     await GetL2EthBalance (getL2EthBalance_initial env) (\<lambda>l2WalletInitialEthBalance.
     await (InboxDepositEth 10000000000000 ethToL2DepositAmount) (inbox_depositEth env) (\<lambda>depositTx.
     await (TxWait ''depositTx'') (depositTx_wait env) (\<lambda>rec.
     console_warn [Str ''Deposit L1 receipt is:'', Str (transactionHash rec)] (
     await (GetInboxSeqNumFromContractTransaction rec)
           (getInboxSeqNumFromContractTransaction env) (\<lambda>seqNumArr.
     case seqNumArr of
       None \<Rightarrow> throw (Error ''No seq num'')
     | Some arr \<Rightarrow>
     console_log [Str ''Inbox sequence number is found!''] (
     let seqNum = index0 arr in
     await (CalculateL2TransactionHash seqNum) (calculateL2TransactionHash env) (\<lambda>l2TxHash.
     console_warn [Str ''L2 Tx Hash is'', Str l2TxHash] (
     console_log [Str ''Waiting for L2 tx...''] (
     await (WaitForTransaction l2TxHash None (Some (1000 * 60 * 12)))
           (waitForTransaction env) (\<lambda>l2TxRec.
     console_log [Str ''L2 tx found:'', Str (transactionHash l2TxRec)] (
     await GetL2EthBalance (getL2EthBalance_updated env) (\<lambda>l2WalletUpdatedEthBalance.
     console_log [Str (''Your L2 balance is updated from ''
                       @ toString l2WalletInitialEthBalance @ '' to ''
                       @ toString l2WalletUpdatedEthBalance)] (
     returned)))))))))))))))"

definition deposit_via_inbox :: "sdk \<Rightarrow> event list \<times> nat" where
  "deposit_via_inbox env = script (deposit_via_inbox_main env)"

section \<open>withdraw-via-lib.ts and withdraw-via-arbsys.ts\<close>

text \<open>The emoji of the messages, as their UTF-8 bytes.\<close>

definition partying_face :: string where
  "partying_face = [CHR 0xF0, CHR 0x9F, CHR 0xA5, CHR 0xB3]"

definition victory_hand :: string where
  "victory_hand = [CHR 0xE2, CHR 0x9C, CHR 0x8C, CHR 0xEF, CHR 0xB8, CHR 0x8F]"

definition waving_hand :: string where
  "waving_hand = [CHR 0xF0, CHR 0x9F, CHR 0x91, CHR 0x8B]"

definition thumbs_up :: string where
  "thumbs_up = [CHR 0xF0, CHR 0x9F, CHR 0x91, CHR 0x8D]"

definition raising_hands :: string where
  "raising_hands = [CHR 0xF0, CHR 0x9F, CHR 0x99, CHR 0x8C]"

definition one_oclock :: string where
  "one_oclock = [CHR 0xF0, CHR 0x9F, CHR 0x95, CHR 0x90]"

definition withdraw_via_lib_main :: "sdk \<Rightarrow> run" where
  "withdraw_via_lib_main env =
     console_log [Str ''Withdraw Eth via arb-ts''] (
     await BridgeInit (bridge_init env) (\<lambda>bridge.
     await GetL2EthBalance (getL2EthBalance_initial env) (\<lambda>l2WalletInitialEthBalance.
     if l2WalletInitialEthBalance < ethFromL2WithdrawAmount_lib then
       console_log [Str (''Oops - not enough ether; fund your account L2 wallet currently ''
                         @ l2Wallet_address env @ '' with at least 0.000001 ether'')] (
       process_exit 1)
     else
     console_log [Str ''Wallet properly funded: initiating withdrawal now''] (
     await (WithdrawETH ethFromL2WithdrawAmount_lib) (withdrawETH env) (\<lambda>withdrawTx.
     await (TxWait ''withdrawTx'') (withdrawTx_wait env) (\<lambda>withdrawRec.
     await (GetWithdrawalsInL2Transaction withdrawRec)
           (getWithdrawalsInL2Transaction env) (\<lambda>withdrawals.
     let withdrawEventData = index0 withdrawals in
     console_log [Str (''Ether withdrawal initiated! '' @ partying_face @ '' ''
                       @ transactionHash withdrawRec)] (
     console_log [Str ''Withdrawal data:'', Obj withdrawEventData] (
     console_log [Str (''To to claim funds (after dispute period), see outbox-execute repo ''
                       @ victory_hand)] (
     returned))))))))))"

definition withdraw_via_lib :: "sdk \<Rightarrow> event list \<times> nat" where
  "withdraw_via_lib env = script (withdraw_via_lib_main env)"

definition withdraw_via_arbsys_main :: "sdk \<Rightarrow> run" where
  "withdraw_via_arbsys_main env =
     console_log [Str ''Withdraw Eth via ArbSys''] (
     await (GetBalance (l2Wallet_address env)) (getBalance_initial env) (\<lambda>l2WalletInitialEthBalance.
     if l2WalletInitialEthBalance < ethFromL2WithdrawAmount_arbsys then
       console_log [Str (''Oops - not enough ether; fund your account L2 wallet currently ''
                         @ l2Wallet_address env @ '' with at least 0.001 ether'')] (
       process_exit 1)
     else
     console_log [Str ''Wallet properly funded: initiating withdrawal now''] (
     await (ArbSysWithdrawEth (l2Wallet_address env) ethFromL2WithdrawAmount_arbsys)
           (arbSys_withdrawEth env) (\<lambda>withdrawTx.
     await (TxWait ''withdrawTx'') (withdrawTx_wait env) (\<lambda>withdrawRec.
     await (GetWithdrawalsInL2Transaction withdrawRec)
           (getWithdrawalsInL2Transaction env) (\<lambda>withdrawals.
     let withdrawEventData = index0 withdrawals in
     console_log [Str (''Ether withdrawal initiated! '' @ partying_face @ '' ''
                       @ transactionHash withdrawRec)] (
     console_log [Str ''Withdrawal data:'', Obj withdrawEventData] (
     console_log [Str (''To claim funds (after dispute period), see outbox-execute repo ''
                       @ victory_hand)] (
     await (GetBalance (l2Wallet_address env)) (getBalance_updated env) (\<lambda>l2WalletUpdatedEthBalance.
     console_log [Str (''Your L2 balance is updated from ''
                       @ toString l2WalletInitialEthBalance @ '' to ''
                       @ toString l2WalletUpdatedEthBalance)] (
     returned)))))))))))"

definition withdraw_via_arbsys :: "sdk \<Rightarrow> event list \<times> nat" where
  "withdraw_via_arbsys env = script (withdraw_via_arbsys_main env)"

section \<open>The cross-chain greeter script\<close>

text \<open>
  Two functions of the ethers library, after its documentation and the contract ABI.
  \<open>defaultAbiCoder.encode(["string"], [s])\<close>: the offset of the dynamic value (32), the
  byte length of the string, and its bytes padded with zeros to a multiple of 32, each
  number as a big-endian 32-byte word; the result is the hex string of these bytes.
  \<open>hexDataLength\<close> is the number of bytes of a hex string, \<open>null\<close> when the argument is
  not one; \<open>null + 4\<close> is \<open>4\<close> in JavaScript (\<open>plus_number\<close>).
\<close>

definition uint256_bytes :: "nat \<Rightarrow> nat list" where
  "uint256_bytes n = map (\<lambda>i. (n div 256 ^ (31 - i)) mod 256) [0..<32]"

definition toUtf8Bytes :: "string \<Rightarrow> nat list" where
  "toUtf8Bytes s = map of_char s"

definition abi_encode_string_bytes :: "string \<Rightarrow> nat list" where
  "abi_encode_string_bytes s =
     uint256_bytes 32 @ uint256_bytes (length (toUtf8Bytes s)) @ toUtf8Bytes s
       @ replicate ((32 - length (toUtf8Bytes s) mod 32) mod 32) 0"

definition hex_digit :: "nat \<Rightarrow> char" where
  "hex_digit d = (if d < 10 then char_of (48 + d) else char_of (87 + d))"

definition hexlify :: "nat list \<Rightarrow> string" where
  "hexlify bs = ''0x'' @ concat (map (\<lambda>b. [hex_digit (b div 16), hex_digit (b mod 16)]) bs)"

definition abi_encode_string :: "string \<Rightarrow> string" where
  "abi_encode_string s = hexlify (abi_encode_string_bytes s)"

definition is_hex_char :: "char \<Rightarrow> bool" where
  "is_hex_char c =
     ((48 \<le> (of_char c :: nat) \<and> (of_char c :: nat) \<le> 57)
      \<or> (65 \<le> (of_char c :: nat) \<and> (of_char c :: nat) \<le> 70)
      \<or> (97 \<le> (of_char c :: nat) \<and> (of_char c :: nat) \<le> 102))"

definition isHexString :: "string \<Rightarrow> bool" where
  "isHexString s = (take 2 s = ''0x'' \<and> list_all is_hex_char (drop 2 s))"

definition hexDataLength :: "string \<Rightarrow> nat option" where
  "hexDataLength data =
     (if \<not> isHexString data \<or> length data mod 2 \<noteq> 0 then None
      else Some ((length data - 2) div 2))"

definition plus_number :: "nat option \<Rightarrow> nat \<Rightarrow> nat" where
  "plus_number a b = (case a of None \<Rightarrow> 0 | Some n \<Rightarrow> n) + b"

definition AddressZero :: string where
  "AddressZero = ''0x0000000000000000000000000000000000000000''"

definition newGreeting :: string where
  "newGreeting = ''Greeting from far, far away''"

definition maxGas :: int where
  "maxGas = 100000"

text \<open>
  \<open>main\<close> of the greeter, with the greeting that the source binds to the constant
  \<open>newGreeting\<close> as a parameter.
\<close>

definition greeter_main_with :: "string \<Rightarrow> sdk \<Rightarrow> run" where
  "greeter_main_with greeting env =
     console_log [Str ''Cross-chain Greeter''] (
     await BridgeInit (bridge_init env) (\<lambda>bridge.
     console_log [Str (''Deploying L1 Greeter '' @ waving_hand)] (
     await (GetContractFactory ''GreeterL1'') (getContractFactory_L1 env) (\<lambda>L1Greeter.
     await (Deploy [''Hello world in L1'', AddressZero, inbox_addr env])
           (l1Greeter_deploy env) (\<lambda>l1Greeter_address.
     await (Deployed ''l1Greeter'') (l1Greeter_deployed env) (\<lambda>_.
     console_log [Str (''GreeterL1 deployed to '' @ l1Greeter_address)] (
     console_log [Str (''Deploying L2 Greeter '' @ waving_hand @ waving_hand)] (
     await (GetContractFactory ''GreeterL2'') (getContractFactory_L2 env) (\<lambda>L2Greeter.
     await (Deploy [''Hello world in L2'', AddressZero])
           (l2Greeter_deploy env) (\<lambda>l2Greeter_address.
     await (Deployed ''l2Greeter'') (l2Greeter_deployed env) (\<lambda>_.
     console_log [Str (''GreeterL2 deployed to '' @ l2Greeter_address)] (
     await (UpdateL2Target l2Greeter_address) (updateL2Target env) (\<lambda>updateL1Tx.
     await (TxWait ''updateL1Tx'') (updateL1Tx_wait env) (\<lambda>_.
     await (UpdateL1Target l1Greeter_address) (updateL1Target env) (\<lambda>updateL2Tx.
     await (TxWait ''updateL2Tx'') (updateL2Tx_wait env) (\<lambda>_.
     console_log [Str (''Counterpart contract addresses set in both greeters '' @ thumbs_up)] (
     await Greet (greet_current env) (\<lambda>currentL2Greeting.
     console_log [Str (''Current L2 greeting: '' @ [CHR 0x22] @ currentL2Greeting @ [CHR 0x22])] (
     console_log [Str ''Updating greeting from L1 to L2:''] (
     let newGreetingBytes = abi_encode_string greeting;
         newGreetingBytesLength = plus_number (hexDataLength newGreetingBytes) 4 in
     await (GetTxnSubmissionPrice newGreetingBytesLength) (getTxnSubmissionPrice env)
           (\<lambda>(queried_submissionPriceWei, nextUpdateTimestamp).
     console_log [Str (''Current retryable base submission price: ''
                       @ toString queried_submissionPriceWei)] (
     case toNumber nextUpdateTimestamp of
       Inl e \<Rightarrow> throw e
     | Inr nextUpdate \<Rightarrow>
     console_log [Str (''Time in seconds till price updates: ''
                       @ toString (nextUpdate - int (timeNow env)))] (
     let submissionPriceWei = queried_submissionPriceWei * 5 in
     await GetGasPrice (getGasPrice env) (\<lambda>gasPriceBid.
     console_log [Str (''L2 gas price: '' @ toString gasPriceBid)] (
     let callValue = submissionPriceWei + gasPriceBid * maxGas in
     console_log [Str (''Sending greeting to L2 with '' @ toString callValue
                       @ '' callValue for L2 fees:'')] (
     await (SetGreetingInL2 greeting submissionPriceWei maxGas gasPriceBid callValue)
           (setGreetingInL2 env) (\<lambda>setGreetingTx.
     await (TxWait ''setGreetingTx'') (setGreetingTx_wait env) (\<lambda>setGreetingRec.
     console_log [Str (''Greeting txn confirmed on L1! '' @ raising_hands @ '' ''
                       @ transactionHash setGreetingRec)] (
     await (GetInboxSeqNumFromContractTransaction setGreetingRec)
           (getInboxSeqNumFromContractTransaction env) (\<lambda>inboxSeqNums.
     case inboxSeqNums of
       None \<Rightarrow> throw (Error ''Sequence number not found!'')
     | Some arr \<Rightarrow>
     let ourMessagesSequenceNum = index0 arr in
     await (CalculateL2RetryableTransactionHash ourMessagesSequenceNum)
           (calculateL2RetryableTransactionHash env) (\<lambda>retryableTxnHash.
     console_log [Str (''Waiting for L2 txn '' @ one_oclock
                       @ ''... (should take < 10 minutes, current time: ''
                       @ toTimeString env)] (
     await (WaitForTransaction retryableTxnHash None None) (waitForTransaction env) (\<lambda>retryRec.
     console_log [Str (''L2 retryable txn executed '' @ partying_face @ '' ''
                       @ transactionHash retryRec)] (
     await Greet (greet_updated env) (\<lambda>newGreetingL2.
     console_log [Str (''Updated L2 greeting: '' @ [CHR 0x22] @ newGreetingL2 @ [CHR 0x22])] (
     console_log [Str victory_hand] (
     returned)))))))))))))))))))))))))))))))))))))"

definition greeter_main :: "sdk \<Rightarrow> run" where
  "greeter_main env = greeter_main_with newGreeting env"

definition greeter :: "sdk \<Rightarrow> event list \<times> nat" where
  "greeter env = script (greeter_main env)"

section \<open>DataFeedConsumer.sol\<close>

text \<open>
  \<open>uint80\<close> and \<open>uint256\<close> are words of that width; the \<open>int256\<close> price is the word of
  its two's complement. The aggregator is another contract: its \<open>getRoundData\<close> is a
  parameter that reverts or returns the five values.
\<close>

datatype revert = Revert string

record round_data =
  roundID :: "80 word"
  price :: "256 word"
  startedAt :: "256 word"
  timestamp :: "256 word"
  answeredInRound :: "80 word"

type_synonym aggregator = "80 word \<Rightarrow> revert + round_data"

definition require :: "bool \<Rightarrow> string \<Rightarrow> 'a \<Rightarrow> revert + 'a" where
  "require c msg v = (if c then Inr v else Inl (Revert msg))"

definition getHistoricalPrice :: "aggregator \<Rightarrow> 80 word \<Rightarrow> revert + round_data" where
  "getHistoricalPrice getRoundData roundId =
     (case getRoundData roundId of
        Inl r \<Rightarrow> Inl r
      | Inr d \<Rightarrow> require (timestamp d > 0) ''Round not completed!'' d)"

section \<open>Observations on a trace\<close>

text \<open>
  An event is \<open>quiet\<close> when it is a call or a message of \<open>main\<close>: not a thrown error, not
  the error message of the entry point, not the end of the process. A run of \<open>main\<close> is
  \<open>straight\<close> when a thrown error or \<open>process.exit\<close> is its last event and nothing
  before it is one.
\<close>

fun quiet :: "event \<Rightarrow> bool" where
  "quiet (Call c) = True"
| "quiet (ConsoleLog a) = True"
| "quiet (ConsoleWarn a) = True"
| "quiet (ConsoleError e) = False"
| "quiet (Throw e) = False"
| "quiet (ProcessExit n) = False"

definition straight :: "run \<Rightarrow> bool" where
  "straight r =
     (case snd r of
        Returned \<Rightarrow> list_all quiet (fst r)
      | Threw e \<Rightarrow> fst r \<noteq> [] \<and> last (fst r) = Throw e \<and> list_all quiet (butlast (fst r))
      | Exited n \<Rightarrow> fst r \<noteq> [] \<and> last (fst r) = ProcessExit n \<and> list_all quiet (butlast (fst r)))"


fun timeouts :: "event list \<Rightarrow> nat option list" where
  "timeouts [] = []"
| "timeouts (Call (WaitForTransaction h c t) # evs) = t # timeouts evs"
| "timeouts (ev # evs) = timeouts evs"

section \<open>The answers a script consults\<close>

text \<open>
  For each script, whether each awaited call resolves (\<open>None\<close>) or rejects (\<open>Some\<close> the
  error), in the order in which \<open>main\<close> awaits them. \<open>resolved_before n\<close> says that the
  first \<open>n\<close> of them resolve, \<open>first_rejection as k e\<close> that the first \<open>k\<close> resolve and the
  next one rejects with \<open>e\<close>.
\<close>

definition rejection :: "error + 'a \<Rightarrow> error option" where
  "rejection r = (case r of Inl e \<Rightarrow> Some e | Inr v \<Rightarrow> None)"

definition resolved_before :: "nat \<Rightarrow> error option list \<Rightarrow> bool" where
  "resolved_before n as = (n \<le> length as \<and> take n as = replicate n None)"

definition first_rejection :: "error option list \<Rightarrow> nat \<Rightarrow> error \<Rightarrow> bool" where
  "first_rejection as k e = (resolved_before k as \<and> k < length as \<and> as ! k = Some e)"

definition deposit_via_lib_answers :: "sdk \<Rightarrow> error option list" where
  "deposit_via_lib_answers env =
     [rejection (bridge_init env),
      rejection (getL2EthBalance_initial env),
      rejection (depositETH env),
      rejection (depositTx_wait env),
      rejection (getInboxSeqNumFromContractTransaction env),
      rejection (calculateL2TransactionHash env),
      rejection (waitForTransaction env),
      rejection (getL2EthBalance_updated env)]"

definition deposit_via_inbox_answers :: "sdk \<Rightarrow> error option list" where
  "deposit_via_inbox_answers env =
     [rejection (bridge_init env),
      rejection (getL2EthBalance_initial env),
      rejection (inbox_depositEth env),
      rejection (depositTx_wait env),
      rejection (getInboxSeqNumFromContractTransaction env),
      rejection (calculateL2TransactionHash env),
      rejection (waitForTransaction env),
      rejection (getL2EthBalance_updated env)]"

definition withdraw_via_lib_answers :: "sdk \<Rightarrow> error option list" where
  "withdraw_via_lib_answers env =
     [rejection (bridge_init env),
      rejection (getL2EthBalance_initial env),
      rejection (withdrawETH env),
      rejection (withdrawTx_wait env),
      rejection (getWithdrawalsInL2Transaction env)]"

definition withdraw_via_arbsys_answers :: "sdk \<Rightarrow> error option list" where
  "withdraw_via_arbsys_answers env =
     [rejection (getBalance_initial env),
      rejection (arbSys_withdrawEth env),
      rejection (withdrawTx_wait env),
      rejection (getWithdrawalsInL2Transaction env),
      rejection (getBalance_updated env)]"

definition greeter_answers :: "sdk \<Rightarrow> error option list" where
  "greeter_answers env =
     [rejection (bridge_init env),
      rejection (getContractFactory_L1 env),
      rejection (l1Greeter_deploy env),
      rejection (l1Greeter_deployed env),
      rejection (getContractFactory_L2 env),
      rejection (l2Greeter_deploy env),
      rejection (l2Greeter_deployed env),
      rejection (updateL2Target env),
      rejection (updateL1Tx_wait env),
      rejection (updateL1Target env),
      rejection (updateL2Tx_wait env),
      rejection (greet_current env),
      rejection (getTxnSubmissionPrice env),
      rejection (getGasPrice env),
      rejection (setGreetingInL2 env),
      rejection (setGreetingTx_wait env),
      rejection (getInboxSeqNumFromContractTransaction env),
      rejection (calculateL2RetryableTransactionHash env),
      rejection (waitForTransaction env),
      rejection (greet_updated env)]"

text \<open>
  The calls of a trace. A run of \<open>main\<close> \<open>halts\<close> with \<open>n\<close> calls and the error \<open>e\<close> when it
  ends by throwing \<open>e\<close> after issuing \<open>n\<close> calls, with nothing but calls and messages
  before the throw. A process \<open>stops_with\<close> \<open>n\<close> calls and the error \<open>e\<close> when its status
  is 1 and its trace is \<open>n\<close> calls (and messages), the throw of \<open>e\<close>, the \<open>console.error\<close>
  of \<open>e\<close> and \<open>process.exit(1)\<close>, in this order and nothing else.
\<close>

fun calls :: "event list \<Rightarrow> call list" where
  "calls [] = []"
| "calls (Call c # evs) = c # calls evs"
| "calls (ev # evs) = calls evs"

definition halts :: "run \<Rightarrow> nat \<Rightarrow> error \<Rightarrow> bool" where
  "halts m n e =
     (snd m = Threw e \<and> fst m \<noteq> [] \<and> last (fst m) = Throw e
      \<and> list_all quiet (butlast (fst m)) \<and> length (calls (butlast (fst m))) = n)"

definition stops_with :: "event list \<times> nat \<Rightarrow> nat \<Rightarrow> error \<Rightarrow> bool" where
  "stops_with p n e =
     (let tr = fst p; pre = take (length tr - 3) tr in
      snd p = 1 \<and> 3 \<le> length tr
      \<and> drop (length tr - 3) tr = [Throw e, ConsoleError e, ProcessExit 1]
      \<and> list_all quiet pre \<and> length (calls pre) = n)"

section \<open>Sample answers of the SDK\<close>

text \<open>Every call succeeds; the balance covers both withdrawal amounts.\<close>

definition sdk_ok :: sdk where
  "sdk_ok = \<lparr>
     bridge_init = Inr (),
     getL2EthBalance_initial = Inr 2000000000000000,
     getL2EthBalance_updated = Inr 2000100000000000,
     depositETH = Inr (),
     inbox_depositEth = Inr (),
     depositTx_wait = Inr \<lparr>transactionHash = ''0x11''\<rparr>,
     getInboxSeqNumFromContractTransaction = Inr (Some [7]),
     calculateL2TransactionHash = Inr ''0x22'',
     waitForTransaction = Inr \<lparr>transactionHash = ''0x22''\<rparr>,
     l2Wallet_address = ''0xaa'',
     inbox_addr = ''0xbb'',
     withdrawETH = Inr (),
     arbSys_withdrawEth = Inr (),
     withdrawTx_wait = Inr \<lparr>transactionHash = ''0x33''\<rparr>,
     getWithdrawalsInL2Transaction = Inr [],
     getBalance_initial = Inr 2000000000000000,
     getBalance_updated = Inr 1000000000000000,
     getContractFactory_L1 = Inr (),
     l1Greeter_deploy = Inr ''0xc1'',
     l1Greeter_deployed = Inr (),
     getContractFactory_L2 = Inr (),
     l2Greeter_deploy = Inr ''0xc2'',
     l2Greeter_deployed = Inr (),
     updateL2Target = Inr (),
     updateL1Tx_wait = Inr (),
     updateL1Target = Inr (),
     updateL2Tx_wait = Inr (),
     greet_current = Inr ''Hello world in L2'',
     getTxnSubmissionPrice = Inr (1000, 1700000000),
     timeNow = 1699990000,
     getGasPrice = Inr 20,
     setGreetingInL2 = Inr (),
     setGreetingTx_wait = Inr \<lparr>transactionHash = ''0x44''\<rparr>,
     calculateL2RetryableTransactionHash = Inr ''0x55'',
     toTimeString = ''12:00:00 GMT+0000'',
     greet_updated = Inr ''Greeting from far, far away''
   \<rparr>"

text \<open>The sequence-number lookup answers \<open>undefined\<close>.\<close>

definition sdk_no_seq_num :: sdk where
  "sdk_no_seq_num = sdk_ok\<lparr>getInboxSeqNumFromContractTransaction := Inr None\<rparr>"

text \<open>An L2 balance of 5 wei, and balances of exactly the two withdrawal amounts.\<close>

definition sdk_low_balance :: sdk where
  "sdk_low_balance = sdk_ok\<lparr>getL2EthBalance_initial := Inr 5, getBalance_initial := Inr 5\<rparr>"

definition sdk_exact_balance :: sdk where
  "sdk_exact_balance =
     sdk_ok\<lparr>getL2EthBalance_initial := Inr 1000000000000,
            getBalance_initial := Inr 1000000000000000\<rparr>"

text \<open>The wait for the L2 transaction runs into its timeout.\<close>

definition sdk_timeout :: sdk where
  "sdk_timeout = sdk_ok\<lparr>waitForTransaction := Inl (Error ''timeout exceeded'')\<rparr>"

text \<open>\<open>Bridge.init\<close> rejects.\<close>

definition sdk_init_rejected :: sdk where
  "sdk_init_rejected = sdk_ok\<lparr>bridge_init := Inl (Error ''could not detect network'')\<rparr>"

text \<open>The withdrawal call rejects; the price query answers a timestamp beyond 53 bits.\<close>

definition sdk_withdrawal_rejected :: sdk where
  "sdk_withdrawal_rejected =
     sdk_ok\<lparr>withdrawETH := Inl (Error ''insufficient funds''),
            arbSys_withdrawEth := Inl (Error ''insufficient funds'')\<rparr>"

definition sdk_far_timestamp :: sdk where
  "sdk_far_timestamp = sdk_ok\<lparr>getTxnSubmissionPrice := Inr (1000, 9007199254740992)\<rparr>"

text \<open>An aggregator that knows round 1 and answers zeros for every other round.\<close>

definition sample_round :: round_data where
  "sample_round = \<lparr>roundID = 1, price = 4200000000000, startedAt = 1650000000,
                    timestamp = 1650000005, answeredInRound = 1\<rparr>"

definition sample_aggregator :: aggregator where
  "sample_aggregator r =
     (if r = 1 then Inr sample_round
      else Inr \<lparr>roundID = r, price = 0, startedAt = 0, timestamp = 0, answeredInRound = 0\<rparr>)"

section \<open>Traces and outcomes of the control-flow combinators\<close>

lemma fst_script:
  "fst (script m) = fst m @ (case snd m of Returned \<Rightarrow> [ProcessExit 0]
                              | Threw e \<Rightarrow> [ConsoleError e, ProcessExit 1] | Exited n \<Rightarrow> [])"
  by (simp add: script_def split: outcome.splits)

lemma snd_script:
  "snd (script m) = (case snd m of Returned \<Rightarrow> 0 | Threw e \<Rightarrow> 1 | Exited n \<Rightarrow> n)"
  by (simp add: script_def split: outcome.splits)

lemma quiet_in_script: "quiet x \<Longrightarrow> x \<in> set (fst (script m)) \<longleftrightarrow> x \<in> set (fst m)"
  by (auto simp add: fst_script split: outcome.splits)

lemma Throw_in_script: "Throw e \<in> set (fst (script m)) \<longleftrightarrow> Throw e \<in> set (fst m)"
  by (auto simp add: fst_script split: outcome.splits)

lemma in_console_log: "x \<in> set (fst (console_log a r)) \<longleftrightarrow> x = ConsoleLog a \<or> x \<in> set (fst r)"
  by (auto simp add: console_log_def emit_def)

lemma in_console_warn: "x \<in> set (fst (console_warn a r)) \<longleftrightarrow> x = ConsoleWarn a \<or> x \<in> set (fst r)"
  by (auto simp add: console_warn_def emit_def)

lemma in_await:
  "x \<in> set (fst (await c resp k)) \<longleftrightarrow>
     x = Call c \<or> (case resp of Inl e \<Rightarrow> x = Throw e | Inr v \<Rightarrow> x \<in> set (fst (k v)))"
  by (auto simp add: await_def emit_def throw_def split: sum.splits)

lemma in_throw: "x \<in> set (fst (throw e)) \<longleftrightarrow> x = Throw e"
  by (auto simp add: throw_def)

lemma in_returned: "x \<in> set (fst returned) \<longleftrightarrow> False"
  by (simp add: returned_def)

lemma in_process_exit: "x \<in> set (fst (process_exit n)) \<longleftrightarrow> x = ProcessExit n"
  by (auto simp add: process_exit_def)

lemmas in_run = in_console_log in_console_warn in_await in_throw in_returned in_process_exit

lemma snd_console_log: "snd (console_log a r) = snd r"
  by (simp add: console_log_def emit_def)

lemma snd_console_warn: "snd (console_warn a r) = snd r"
  by (simp add: console_warn_def emit_def)

lemma snd_await:
  "snd (await c resp k) = (case resp of Inl e \<Rightarrow> Threw e | Inr v \<Rightarrow> snd (k v))"
  by (simp add: await_def emit_def throw_def split: sum.splits)

lemma snd_throw: "snd (throw e) = Threw e"
  by (simp add: throw_def)

lemma snd_returned: "snd returned = Returned"
  by (simp add: returned_def)

lemma snd_process_exit: "snd (process_exit n) = Exited n"
  by (simp add: process_exit_def)

lemmas snd_run = snd_console_log snd_console_warn snd_await snd_throw snd_returned snd_process_exit

lemma straight_returned: "straight returned"
  by (simp add: straight_def returned_def)

lemma straight_throw: "straight (throw e)"
  by (simp add: straight_def throw_def)

lemma straight_process_exit: "straight (process_exit n)"
  by (simp add: straight_def process_exit_def)

lemma straight_emit: "quiet ev \<Longrightarrow> straight r \<Longrightarrow> straight (emit ev r)"
  by (auto simp add: straight_def emit_def split: outcome.splits)

lemma straight_console_log: "straight r \<Longrightarrow> straight (console_log a r)"
  by (simp add: console_log_def straight_emit)

lemma straight_console_warn: "straight r \<Longrightarrow> straight (console_warn a r)"
  by (simp add: console_warn_def straight_emit)

lemma straight_await: "(\<And>v. straight (k v)) \<Longrightarrow> straight (await c resp k)"
  by (simp add: await_def straight_emit straight_throw split: sum.splits)

lemmas straight_intros = straight_returned straight_throw straight_process_exit
  straight_console_log straight_console_warn straight_await

lemma straight_deposit_via_lib: "straight (deposit_via_lib_main env)"
  by (auto simp add: deposit_via_lib_main_def Let_def intro!: straight_intros split: option.splits sum.splits prod.splits)

lemma straight_deposit_via_inbox: "straight (deposit_via_inbox_main env)"
  by (auto simp add: deposit_via_inbox_main_def Let_def intro!: straight_intros split: option.splits sum.splits prod.splits)

lemma straight_withdraw_via_lib: "straight (withdraw_via_lib_main env)"
  by (auto simp add: withdraw_via_lib_main_def Let_def intro!: straight_intros split: option.splits sum.splits prod.splits)

lemma straight_withdraw_via_arbsys: "straight (withdraw_via_arbsys_main env)"
  by (auto simp add: withdraw_via_arbsys_main_def Let_def intro!: straight_intros split: option.splits sum.splits prod.splits)

lemma straight_greeter: "straight (greeter_main_with g env)"
  by (auto simp add: greeter_main_with_def Let_def intro!: straight_intros split: option.splits sum.splits prod.splits)

lemma in_butlast_or_last: "xs \<noteq> [] \<Longrightarrow> x \<in> set xs \<Longrightarrow> x \<in> set (butlast xs) \<or> x = last xs"
  by (induction xs) (auto split: if_splits)

lemma script_of_straight_throw:
  assumes "straight m" and "Throw e \<in> set (fst (script m))"
  shows "snd (script m) = 1 \<and>
         (\<exists>pre. fst (script m) = pre @ [Throw e, ConsoleError e, ProcessExit 1] \<and> list_all quiet pre)"
proof -
  from assms(2) have mem: "Throw e \<in> set (fst m)"
    by (simp add: Throw_in_script)
  show ?thesis
  proof (cases "snd m")
    case Returned
    with assms(1) have "list_all quiet (fst m)" by (simp add: straight_def)
    with mem have False by (auto simp add: list_all_iff)
    then show ?thesis ..
  next
    case (Threw e')
    with assms(1) have ne: "fst m \<noteq> []" and l: "last (fst m) = Throw e'"
      and q: "list_all quiet (butlast (fst m))"
      by (simp_all add: straight_def)
    from in_butlast_or_last [OF ne mem] q l have "e' = e"
      by (auto simp add: list_all_iff)
    from ne have "fst m = butlast (fst m) @ [last (fst m)]" by simp
    with l \<open>e' = e\<close> have "fst m = butlast (fst m) @ [Throw e]" by simp
    then have "fst (script m) = butlast (fst m) @ [Throw e, ConsoleError e, ProcessExit 1]"
      using Threw \<open>e' = e\<close> by (simp add: fst_script)
    with q Threw show ?thesis by (auto simp add: snd_script)
  next
    case (Exited n)
    with assms(1) have ne: "fst m \<noteq> []" and l: "last (fst m) = ProcessExit n"
      and q: "list_all quiet (butlast (fst m))"
      by (simp_all add: straight_def)
    from in_butlast_or_last [OF ne mem] q l have False
      by (auto simp add: list_all_iff)
    then show ?thesis ..
  qed
qed

section \<open>Runs that halt on a thrown error\<close>

lemma rejection_None: "rejection r = None \<longleftrightarrow> (\<exists>v. r = Inr v)"
  by (cases r) (simp_all add: rejection_def)

lemma rejection_Some: "rejection r = Some e \<longleftrightarrow> r = Inl e"
  by (cases r) (simp_all add: rejection_def)

lemma calls_append: "calls (xs @ ys) = calls xs @ calls ys"
  by (induction xs rule: calls.induct) simp_all

lemma halts_throw: "halts (throw e') n e \<longleftrightarrow> e' = e \<and> n = 0"
  by (auto simp add: halts_def throw_def)

lemma halts_returned: "halts returned n e \<longleftrightarrow> False"
  by (simp add: halts_def returned_def)

lemma halts_process_exit: "halts (process_exit m) n e \<longleftrightarrow> False"
  by (simp add: halts_def process_exit_def)

lemma halts_console_log: "halts (console_log a r) n e \<longleftrightarrow> halts r n e"
  by (auto simp add: halts_def console_log_def emit_def)

lemma halts_console_warn: "halts (console_warn a r) n e \<longleftrightarrow> halts r n e"
  by (auto simp add: halts_def console_warn_def emit_def)

lemma halts_await:
  "halts (await c r k) n e \<longleftrightarrow>
     0 < n \<and> (case r of Inl e' \<Rightarrow> e' = e \<and> n = 1 | Inr v \<Rightarrow> halts (k v) (n - 1) e)"
  by (cases r) (auto simp add: halts_def await_def emit_def throw_def)

lemmas halts_run = halts_throw halts_returned halts_process_exit halts_console_log
  halts_console_warn halts_await

lemma stops_with_script:
  assumes "halts m n e"
  shows "stops_with (script m) n e"
proof -
  from assms have o: "snd m = Threw e" and ne: "fst m \<noteq> []" and l: "last (fst m) = Throw e"
    and q: "list_all quiet (butlast (fst m))" and c: "length (calls (butlast (fst m))) = n"
    by (simp_all add: halts_def)
  from ne l have "fst m = butlast (fst m) @ [Throw e]"
    by (metis append_butlast_last_id)
  with o have tr: "fst (script m) = butlast (fst m) @ [Throw e, ConsoleError e, ProcessExit 1]"
    by (simp add: fst_script)
  from o have "snd (script m) = 1"
    by (simp add: snd_script)
  with tr q c show ?thesis
    by (simp add: stops_with_def Let_def)
qed

lemma resolved_before_Nil: "resolved_before n [] \<longleftrightarrow> n = 0"
  by (auto simp add: resolved_before_def)

lemma resolved_before_Cons:
  "resolved_before n (a # as) \<longleftrightarrow> n = 0 \<or> (a = None \<and> resolved_before (n - 1) as)"
  by (cases n) (auto simp add: resolved_before_def)

lemma first_rejection_Nil: "first_rejection [] k e \<longleftrightarrow> False"
  by (simp add: first_rejection_def)

lemma first_rejection_Cons:
  "first_rejection (a # as) k e \<longleftrightarrow>
     (k = 0 \<and> a = Some e) \<or> (\<exists>j. k = Suc j \<and> a = None \<and> first_rejection as j e)"
  by (cases k) (auto simp add: first_rejection_def resolved_before_def)

lemmas answers_simps = resolved_before_Nil resolved_before_Cons first_rejection_Nil
  first_rejection_Cons rejection_None rejection_Some

lemma calls_script: "calls (fst (script m)) = calls (fst m)"
  by (simp add: fst_script calls_append split: outcome.splits)

lemma calls_console_log: "calls (fst (console_log a r)) = calls (fst r)"
  by (simp add: console_log_def emit_def)

lemma calls_console_warn: "calls (fst (console_warn a r)) = calls (fst r)"
  by (simp add: console_warn_def emit_def)

lemma calls_await:
  "calls (fst (await c r k)) = c # (case r of Inl e \<Rightarrow> [] | Inr v \<Rightarrow> calls (fst (k v)))"
  by (simp add: await_def emit_def throw_def split: sum.splits)

lemma calls_throw: "calls (fst (throw e)) = []"
  by (simp add: throw_def)

lemma calls_returned: "calls (fst returned) = []"
  by (simp add: returned_def)

lemma calls_process_exit: "calls (fst (process_exit n)) = []"
  by (simp add: process_exit_def)

lemmas calls_run = calls_script calls_console_log calls_console_warn calls_await calls_throw
  calls_returned calls_process_exit

lemma throw_is_caught:
  assumes "run \<in> {deposit_via_lib, deposit_via_inbox, withdraw_via_lib, withdraw_via_arbsys, greeter}"
      and "Throw e \<in> set (fst (run env))"
  shows "snd (run env) = 1
       \<and> (\<exists>pre. fst (run env) = pre @ [Throw e, ConsoleError e, ProcessExit 1]
                 \<and> list_all quiet pre)"
proof -
  from assms(1) have
    "run = deposit_via_lib \<or> run = deposit_via_inbox \<or> run = withdraw_via_lib
       \<or> run = withdraw_via_arbsys \<or> run = greeter"
    by simp
  then have "\<exists>m. run env = script m \<and> straight m"
  proof (elim disjE)
    assume "run = deposit_via_lib"
    then have "run env = script (deposit_via_lib_main env)"
      by (simp add: deposit_via_lib_def)
    with straight_deposit_via_lib show ?thesis by blast
  next
    assume "run = deposit_via_inbox"
    then have "run env = script (deposit_via_inbox_main env)"
      by (simp add: deposit_via_inbox_def)
    with straight_deposit_via_inbox show ?thesis by blast
  next
    assume "run = withdraw_via_lib"
    then have "run env = script (withdraw_via_lib_main env)"
      by (simp add: withdraw_via_lib_def)
    with straight_withdraw_via_lib show ?thesis by blast
  next
    assume "run = withdraw_via_arbsys"
    then have "run env = script (withdraw_via_arbsys_main env)"
      by (simp add: withdraw_via_arbsys_def)
    with straight_withdraw_via_arbsys show ?thesis by blast
  next
    assume "run = greeter"
    then have "run env = script (greeter_main_with newGreeting env)"
      by (simp add: greeter_def greeter_main_def)
    with straight_greeter show ?thesis by blast
  qed
  then obtain m where m: "run env = script m" and s: "straight m"
    by blast
  from assms(2) m have "Throw e \<in> set (fst (script m))"
    by simp
  from script_of_straight_throw [OF s this] m show ?thesis
    by simp
qed

section \<open>The ABI encoding of a string and its hex length\<close>

lemma length_uint256_bytes: "length (uint256_bytes n) = 32"
  by (simp add: uint256_bytes_def)

lemma uint256_bytes_lt: "b \<in> set (uint256_bytes n) \<Longrightarrow> b < 256"
  by (auto simp add: uint256_bytes_def)

lemma toUtf8Bytes_lt: "b \<in> set (toUtf8Bytes s) \<Longrightarrow> b < 256"
  by (auto simp add: toUtf8Bytes_def)

lemma abi_encode_string_bytes_lt: "b \<in> set (abi_encode_string_bytes s) \<Longrightarrow> b < 256"
  by (auto simp add: abi_encode_string_bytes_def dest: uint256_bytes_lt toUtf8Bytes_lt)

lemma is_hex_char_hex_digit: "d < 16 \<Longrightarrow> is_hex_char (hex_digit d)"
  by (auto simp add: is_hex_char_def hex_digit_def)

lemma length_hex_pairs:
  "length (concat (map (\<lambda>b. [hex_digit (b div 16), hex_digit (b mod 16)]) bs)) = 2 * length bs"
  by (induction bs) simp_all

lemma hex_pairs_are_hex:
  "\<forall>b \<in> set bs. b < 256 \<Longrightarrow>
   list_all is_hex_char (concat (map (\<lambda>b. [hex_digit (b div 16), hex_digit (b mod 16)]) bs))"
  by (induction bs) (auto simp add: is_hex_char_hex_digit)

lemma hexDataLength_hexlify:
  assumes "\<forall>b \<in> set bs. b < 256"
  shows "hexDataLength (hexlify bs) = Some (length bs)"
  using hex_pairs_are_hex [OF assms]
  by (simp add: hexDataLength_def isHexString_def hexlify_def length_hex_pairs)

lemma padded_length: "n + (32 - n mod 32) mod 32 = 32 * ((n + 31) div 32)" for n :: nat
proof -
  define q r where "q = n div 32" and "r = n mod 32"
  have n: "n = 32 * q + r" and r: "r < 32"
    by (simp_all add: q_def r_def)
  show ?thesis
  proof (cases "r = 0")
    case True
    then show ?thesis by (simp add: n)
  next
    case False
    with r have d: "(r + 31) div 32 = 1"
      by (simp add: div_nat_eqI)
    have "(32 * q + r + 31) div 32 = q + (r + 31) div 32"
      by (simp add: add.assoc)
    with d have "(n + 31) div 32 = q + 1"
      by (simp add: n)
    moreover from False r have "(32 - n mod 32) mod 32 = 32 - r"
      by (simp add: n)
    ultimately show ?thesis
      using r by (simp add: n)
  qed
qed

lemma length_abi_encode_string_bytes:
  "length (abi_encode_string_bytes s) = 64 + 32 * ((length s + 31) div 32)"
  using padded_length [of "length s"]
  by (simp add: abi_encode_string_bytes_def length_uint256_bytes toUtf8Bytes_def)

section \<open>The claims\<close>

text \<open>
  C1. When the sequence-number lookup finds no sequence number (its answer is then
  \<open>undefined\<close>), the script throws its "no sequence number" error and the hash
  prediction is not among the calls of the run. With the calls before the lookup
  resolved, the run is the calls up to the lookup, each issued once, the throw, the
  \<open>console.error\<close> of the error and \<open>process.exit(1)\<close>.
\<close>

theorem missing_seq_num_throws_before_hash_prediction:
  assumes "getInboxSeqNumFromContractTransaction env = Inr None"
  shows "(\<forall>s. Call (CalculateL2TransactionHash s) \<notin> set (fst (deposit_via_lib env)))
       \<and> (\<forall>s. Call (CalculateL2TransactionHash s) \<notin> set (fst (deposit_via_inbox env)))
       \<and> (\<forall>s. Call (CalculateL2RetryableTransactionHash s) \<notin> set (fst (greeter env)))
       \<and> (\<forall>r. Call (GetInboxSeqNumFromContractTransaction r) \<in> set (fst (deposit_via_lib env))
              \<longrightarrow> Throw (Error ''no seq num'') \<in> set (fst (deposit_via_lib env))
                  \<and> snd (deposit_via_lib env) = 1)
       \<and> (\<forall>r. Call (GetInboxSeqNumFromContractTransaction r) \<in> set (fst (deposit_via_inbox env))
              \<longrightarrow> Throw (Error ''No seq num'') \<in> set (fst (deposit_via_inbox env))
                  \<and> snd (deposit_via_inbox env) = 1)
       \<and> (\<forall>r. Call (GetInboxSeqNumFromContractTransaction r) \<in> set (fst (greeter env))
              \<longrightarrow> Throw (Error ''Sequence number not found!'') \<in> set (fst (greeter env))
                  \<and> snd (greeter env) = 1)
       \<and> (\<forall>r. resolved_before 4 (deposit_via_lib_answers env) \<and> depositTx_wait env = Inr r \<longrightarrow>
              stops_with (deposit_via_lib env) 5 (Error ''no seq num'')
              \<and> calls (fst (deposit_via_lib env)) =
                  [BridgeInit, GetL2EthBalance, DepositETH ethToL2DepositAmount,
                   TxWait ''depositTx'', GetInboxSeqNumFromContractTransaction r])
       \<and> (\<forall>r. resolved_before 4 (deposit_via_inbox_answers env) \<and> depositTx_wait env = Inr r \<longrightarrow>
              stops_with (deposit_via_inbox env) 5 (Error ''No seq num'')
              \<and> calls (fst (deposit_via_inbox env)) =
                  [BridgeInit, GetL2EthBalance,
                   InboxDepositEth 10000000000000 ethToL2DepositAmount,
                   TxWait ''depositTx'', GetInboxSeqNumFromContractTransaction r])
       \<and> (\<forall>P t n gp a1 a2 r. resolved_before 16 (greeter_answers env)
              \<and> l1Greeter_deploy env = Inr a1 \<and> l2Greeter_deploy env = Inr a2
              \<and> getTxnSubmissionPrice env = Inr (P, t) \<and> toNumber t = Inr n
              \<and> getGasPrice env = Inr gp \<and> setGreetingTx_wait env = Inr r \<longrightarrow>
              stops_with (greeter env) 17 (Error ''Sequence number not found!'')
              \<and> calls (fst (greeter env)) =
                  [BridgeInit, GetContractFactory ''GreeterL1'',
                   Deploy [''Hello world in L1'', AddressZero, inbox_addr env],
                   Deployed ''l1Greeter'', GetContractFactory ''GreeterL2'',
                   Deploy [''Hello world in L2'', AddressZero], Deployed ''l2Greeter'',
                   UpdateL2Target a2, TxWait ''updateL1Tx'', UpdateL1Target a1,
                   TxWait ''updateL2Tx'', Greet, GetTxnSubmissionPrice 100, GetGasPrice,
                   SetGreetingInL2 newGreeting (P * 5) maxGas gp (P * 5 + gp * maxGas),
                   TxWait ''setGreetingTx'', GetInboxSeqNumFromContractTransaction r])"
proof (intro conjI)
  show "\<forall>s. Call (CalculateL2TransactionHash s) \<notin> set (fst (deposit_via_lib env))"
    using assms
    by (auto simp add: deposit_via_lib_def deposit_via_lib_main_def quiet_in_script in_run
        split: sum.splits)
  show "\<forall>s. Call (CalculateL2TransactionHash s) \<notin> set (fst (deposit_via_inbox env))"
    using assms
    by (auto simp add: deposit_via_inbox_def deposit_via_inbox_main_def quiet_in_script in_run
        split: sum.splits)
  show "\<forall>s. Call (CalculateL2RetryableTransactionHash s) \<notin> set (fst (greeter env))"
    using assms
    by (auto simp add: greeter_def greeter_main_def greeter_main_with_def quiet_in_script in_run
        Let_def split: sum.splits prod.splits)
  show "\<forall>r. Call (GetInboxSeqNumFromContractTransaction r) \<in> set (fst (deposit_via_lib env))
              \<longrightarrow> Throw (Error ''no seq num'') \<in> set (fst (deposit_via_lib env))
                  \<and> snd (deposit_via_lib env) = 1"
    using assms
    by (auto simp add: deposit_via_lib_def deposit_via_lib_main_def quiet_in_script
        Throw_in_script snd_script in_run snd_run split: sum.splits)
  show "\<forall>r. Call (GetInboxSeqNumFromContractTransaction r) \<in> set (fst (deposit_via_inbox env))
              \<longrightarrow> Throw (Error ''No seq num'') \<in> set (fst (deposit_via_inbox env))
                  \<and> snd (deposit_via_inbox env) = 1"
    using assms
    by (auto simp add: deposit_via_inbox_def deposit_via_inbox_main_def quiet_in_script
        Throw_in_script snd_script in_run snd_run split: sum.splits)
  show "\<forall>r. Call (GetInboxSeqNumFromContractTransaction r) \<in> set (fst (greeter env))
              \<longrightarrow> Throw (Error ''Sequence number not found!'') \<in> set (fst (greeter env))
                  \<and> snd (greeter env) = 1"
    using assms
    by (auto simp add: greeter_def greeter_main_def greeter_main_with_def quiet_in_script
        Throw_in_script snd_script in_run snd_run Let_def split: sum.splits prod.splits)
  show "\<forall>r. resolved_before 4 (deposit_via_lib_answers env) \<and> depositTx_wait env = Inr r \<longrightarrow>
              stops_with (deposit_via_lib env) 5 (Error ''no seq num'')
              \<and> calls (fst (deposit_via_lib env)) =
                  [BridgeInit, GetL2EthBalance, DepositETH ethToL2DepositAmount,
                   TxWait ''depositTx'', GetInboxSeqNumFromContractTransaction r]"
  proof (intro allI impI conjI)
    fix r
    assume h: "resolved_before 4 (deposit_via_lib_answers env) \<and> depositTx_wait env = Inr r"
    with assms have "halts (deposit_via_lib_main env) 5 (Error ''no seq num'')"
      by (clarsimp simp add: deposit_via_lib_answers_def answers_simps)
         (simp add: deposit_via_lib_main_def halts_run)
    then show "stops_with (deposit_via_lib env) 5 (Error ''no seq num'')"
      unfolding deposit_via_lib_def by (rule stops_with_script)
    from h assms show "calls (fst (deposit_via_lib env)) =
                  [BridgeInit, GetL2EthBalance, DepositETH ethToL2DepositAmount,
                   TxWait ''depositTx'', GetInboxSeqNumFromContractTransaction r]"
      by (clarsimp simp add: deposit_via_lib_answers_def answers_simps)
         (simp add: deposit_via_lib_def deposit_via_lib_main_def calls_run)
  qed
  show "\<forall>r. resolved_before 4 (deposit_via_inbox_answers env) \<and> depositTx_wait env = Inr r \<longrightarrow>
              stops_with (deposit_via_inbox env) 5 (Error ''No seq num'')
              \<and> calls (fst (deposit_via_inbox env)) =
                  [BridgeInit, GetL2EthBalance,
                   InboxDepositEth 10000000000000 ethToL2DepositAmount,
                   TxWait ''depositTx'', GetInboxSeqNumFromContractTransaction r]"
  proof (intro allI impI conjI)
    fix r
    assume h: "resolved_before 4 (deposit_via_inbox_answers env) \<and> depositTx_wait env = Inr r"
    with assms have "halts (deposit_via_inbox_main env) 5 (Error ''No seq num'')"
      by (clarsimp simp add: deposit_via_inbox_answers_def answers_simps)
         (simp add: deposit_via_inbox_main_def halts_run)
    then show "stops_with (deposit_via_inbox env) 5 (Error ''No seq num'')"
      unfolding deposit_via_inbox_def by (rule stops_with_script)
    from h assms show "calls (fst (deposit_via_inbox env)) =
                  [BridgeInit, GetL2EthBalance,
                   InboxDepositEth 10000000000000 ethToL2DepositAmount,
                   TxWait ''depositTx'', GetInboxSeqNumFromContractTransaction r]"
      by (clarsimp simp add: deposit_via_inbox_answers_def answers_simps)
         (simp add: deposit_via_inbox_def deposit_via_inbox_main_def calls_run)
  qed
  show "\<forall>P t n gp a1 a2 r. resolved_before 16 (greeter_answers env)
              \<and> l1Greeter_deploy env = Inr a1 \<and> l2Greeter_deploy env = Inr a2
              \<and> getTxnSubmissionPrice env = Inr (P, t) \<and> toNumber t = Inr n
              \<and> getGasPrice env = Inr gp \<and> setGreetingTx_wait env = Inr r \<longrightarrow>
              stops_with (greeter env) 17 (Error ''Sequence number not found!'')
              \<and> calls (fst (greeter env)) =
                  [BridgeInit, GetContractFactory ''GreeterL1'',
                   Deploy [''Hello world in L1'', AddressZero, inbox_addr env],
                   Deployed ''l1Greeter'', GetContractFactory ''GreeterL2'',
                   Deploy [''Hello world in L2'', AddressZero], Deployed ''l2Greeter'',
                   UpdateL2Target a2, TxWait ''updateL1Tx'', UpdateL1Target a1,
                   TxWait ''updateL2Tx'', Greet, GetTxnSubmissionPrice 100, GetGasPrice,
                   SetGreetingInL2 newGreeting (P * 5) maxGas gp (P * 5 + gp * maxGas),
                   TxWait ''setGreetingTx'', GetInboxSeqNumFromContractTransaction r]"
  proof (intro allI impI conjI)
    fix P t n gp a1 a2 r
    assume h: "resolved_before 16 (greeter_answers env)
              \<and> l1Greeter_deploy env = Inr a1 \<and> l2Greeter_deploy env = Inr a2
              \<and> getTxnSubmissionPrice env = Inr (P, t) \<and> toNumber t = Inr n
              \<and> getGasPrice env = Inr gp \<and> setGreetingTx_wait env = Inr r"
    have len: "plus_number (hexDataLength (abi_encode_string newGreeting)) 4 = 100"
      using length_abi_encode_string_bytes [of newGreeting]
      by (simp add: abi_encode_string_def hexDataLength_hexlify abi_encode_string_bytes_lt
          plus_number_def newGreeting_def)
    from h assms have "halts (greeter_main env) 17 (Error ''Sequence number not found!'')"
      by (clarsimp simp add: greeter_answers_def answers_simps)
         (simp add: greeter_main_def greeter_main_with_def halts_run Let_def)
    then show "stops_with (greeter env) 17 (Error ''Sequence number not found!'')"
      unfolding greeter_def by (rule stops_with_script)
    from h assms len show "calls (fst (greeter env)) =
                  [BridgeInit, GetContractFactory ''GreeterL1'',
                   Deploy [''Hello world in L1'', AddressZero, inbox_addr env],
                   Deployed ''l1Greeter'', GetContractFactory ''GreeterL2'',
                   Deploy [''Hello world in L2'', AddressZero], Deployed ''l2Greeter'',
                   UpdateL2Target a2, TxWait ''updateL1Tx'', UpdateL1Target a1,
                   TxWait ''updateL2Tx'', Greet, GetTxnSubmissionPrice 100, GetGasPrice,
                   SetGreetingInL2 newGreeting (P * 5) maxGas gp (P * 5 + gp * maxGas),
                   TxWait ''setGreetingTx'', GetInboxSeqNumFromContractTransaction r]"
      by (clarsimp simp add: greeter_answers_def answers_simps)
         (simp add: greeter_def greeter_main_def greeter_main_with_def calls_run Let_def)
  qed
qed

theorem missing_seq_num_throws_before_hash_prediction_witness:
  "getInboxSeqNumFromContractTransaction sdk_no_seq_num = Inr None
   \<and> resolved_before 4 (deposit_via_lib_answers sdk_no_seq_num)
   \<and> resolved_before 4 (deposit_via_inbox_answers sdk_no_seq_num)
   \<and> resolved_before 16 (greeter_answers sdk_no_seq_num)
   \<and> stops_with (deposit_via_lib sdk_no_seq_num) 5 (Error ''no seq num'')
   \<and> stops_with (deposit_via_inbox sdk_no_seq_num) 5 (Error ''No seq num'')
   \<and> stops_with (greeter sdk_no_seq_num) 17 (Error ''Sequence number not found!'')
   \<and> Call (GetInboxSeqNumFromContractTransaction \<lparr>transactionHash = ''0x11''\<rparr>)
        \<in> set (fst (deposit_via_lib sdk_no_seq_num))
   \<and> Throw (Error ''no seq num'') \<in> set (fst (deposit_via_lib sdk_no_seq_num))
   \<and> snd (deposit_via_lib sdk_no_seq_num) = 1
   \<and> Call (CalculateL2TransactionHash (Some 7)) \<notin> set (fst (deposit_via_lib sdk_no_seq_num))"
proof -
  note inst = missing_seq_num_throws_before_hash_prediction [of sdk_no_seq_num]
  have h: "getInboxSeqNumFromContractTransaction sdk_no_seq_num = Inr None"
    by (simp add: sdk_no_seq_num_def)
  have rl: "resolved_before 4 (deposit_via_lib_answers sdk_no_seq_num)"
    by (simp add: deposit_via_lib_answers_def answers_simps sdk_no_seq_num_def sdk_ok_def)
  have ri: "resolved_before 4 (deposit_via_inbox_answers sdk_no_seq_num)"
    by (simp add: deposit_via_inbox_answers_def answers_simps sdk_no_seq_num_def sdk_ok_def)
  have rg: "resolved_before 16 (greeter_answers sdk_no_seq_num)"
    by (simp add: greeter_answers_def answers_simps sdk_no_seq_num_def sdk_ok_def)
  have w: "depositTx_wait sdk_no_seq_num = Inr \<lparr>transactionHash = ''0x11''\<rparr>"
    by (simp add: sdk_no_seq_num_def sdk_ok_def)
  have g: "l1Greeter_deploy sdk_no_seq_num = Inr ''0xc1''
           \<and> l2Greeter_deploy sdk_no_seq_num = Inr ''0xc2''
           \<and> getTxnSubmissionPrice sdk_no_seq_num = Inr (1000, 1700000000)
           \<and> toNumber 1700000000 = Inr 1700000000
           \<and> getGasPrice sdk_no_seq_num = Inr 20
           \<and> setGreetingTx_wait sdk_no_seq_num = Inr \<lparr>transactionHash = ''0x44''\<rparr>"
    by (simp add: sdk_no_seq_num_def sdk_ok_def toNumber_def)
  have l: "Call (GetInboxSeqNumFromContractTransaction \<lparr>transactionHash = ''0x11''\<rparr>)
             \<in> set (fst (deposit_via_lib sdk_no_seq_num))"
    by (simp add: deposit_via_lib_def deposit_via_lib_main_def quiet_in_script in_run
        sdk_no_seq_num_def sdk_ok_def)
  note c = inst [OF h]
  have 1: "Call (CalculateL2TransactionHash (Some 7)) \<notin> set (fst (deposit_via_lib sdk_no_seq_num))"
    by (rule c [THEN conjunct1, rule_format])
  have 4: "Throw (Error ''no seq num'') \<in> set (fst (deposit_via_lib sdk_no_seq_num))
           \<and> snd (deposit_via_lib sdk_no_seq_num) = 1"
    by (rule c [THEN conjunct2, THEN conjunct2, THEN conjunct2, THEN conjunct1, rule_format,
          OF l])
  have 7: "stops_with (deposit_via_lib sdk_no_seq_num) 5 (Error ''no seq num'')"
    by (rule c [THEN conjunct2, THEN conjunct2, THEN conjunct2, THEN conjunct2, THEN conjunct2,
          THEN conjunct2, THEN conjunct1, rule_format, OF conjI [OF rl w], THEN conjunct1])
  have 8: "stops_with (deposit_via_inbox sdk_no_seq_num) 5 (Error ''No seq num'')"
    by (rule c [THEN conjunct2, THEN conjunct2, THEN conjunct2, THEN conjunct2, THEN conjunct2,
          THEN conjunct2, THEN conjunct2, THEN conjunct1, rule_format, OF conjI [OF ri w],
          THEN conjunct1])
  have 9: "stops_with (greeter sdk_no_seq_num) 17 (Error ''Sequence number not found!'')"
    by (rule c [THEN conjunct2, THEN conjunct2, THEN conjunct2, THEN conjunct2, THEN conjunct2,
          THEN conjunct2, THEN conjunct2, THEN conjunct2, rule_format, OF conjI [OF rg g],
          THEN conjunct1])
  from h rl ri rg 7 8 9 l 4 1 show ?thesis
    by (intro conjI) (erule conjunct1 conjunct2 | assumption)+
qed

text \<open>
  C2. In both withdrawal scripts, when the queried L2 balance is strictly less than the
  configured withdrawal amount, the process ends with status 1 right after the "Oops"
  message, and the withdrawal call (\<open>bridge.withdrawETH\<close>, \<open>arbSys.withdrawEth\<close>) is not
  among the calls of the run.
\<close>

theorem insufficient_balance_exits_1_without_withdrawal:
  "(bridge_init env = Inr () \<and> getL2EthBalance_initial env = Inr b
      \<and> b < ethFromL2WithdrawAmount_lib \<longrightarrow>
      withdraw_via_lib env =
        ([ConsoleLog [Str ''Withdraw Eth via arb-ts''], Call BridgeInit, Call GetL2EthBalance,
          ConsoleLog [Str (''Oops - not enough ether; fund your account L2 wallet currently ''
                           @ l2Wallet_address env @ '' with at least 0.000001 ether'')],
          ProcessExit 1], 1)
      \<and> (\<forall>a. Call (WithdrawETH a) \<notin> set (fst (withdraw_via_lib env))))
   \<and> (getBalance_initial env = Inr b' \<and> b' < ethFromL2WithdrawAmount_arbsys \<longrightarrow>
      withdraw_via_arbsys env =
        ([ConsoleLog [Str ''Withdraw Eth via ArbSys''], Call (GetBalance (l2Wallet_address env)),
          ConsoleLog [Str (''Oops - not enough ether; fund your account L2 wallet currently ''
                           @ l2Wallet_address env @ '' with at least 0.001 ether'')],
          ProcessExit 1], 1)
      \<and> (\<forall>d a. Call (ArbSysWithdrawEth d a) \<notin> set (fst (withdraw_via_arbsys env))))"
  by (simp add: withdraw_via_lib_def withdraw_via_lib_main_def
      withdraw_via_arbsys_def withdraw_via_arbsys_main_def
      await_def console_log_def emit_def process_exit_def script_def)

theorem insufficient_balance_exits_1_without_withdrawal_witness:
  "bridge_init sdk_low_balance = Inr () \<and> getL2EthBalance_initial sdk_low_balance = Inr 5
   \<and> 5 < ethFromL2WithdrawAmount_lib
   \<and> getBalance_initial sdk_low_balance = Inr 5 \<and> 5 < ethFromL2WithdrawAmount_arbsys
   \<and> snd (withdraw_via_lib sdk_low_balance) = 1
   \<and> snd (withdraw_via_arbsys sdk_low_balance) = 1
   \<and> Call (WithdrawETH ethFromL2WithdrawAmount_lib) \<notin> set (fst (withdraw_via_lib sdk_low_balance))
   \<and> Call (ArbSysWithdrawEth ''0xaa'' ethFromL2WithdrawAmount_arbsys)
        \<notin> set (fst (withdraw_via_arbsys sdk_low_balance))"
  using insufficient_balance_exits_1_without_withdrawal [of sdk_low_balance 5 5]
  by (simp add: sdk_low_balance_def sdk_ok_def ethFromL2WithdrawAmount_lib_def
      ethFromL2WithdrawAmount_arbsys_def)

text \<open>
  C3. When the submission-price query answers the base price \<open>P\<close>, the adjusted
  submission price that the greeter script passes to \<open>setGreetingInL2\<close> is \<open>P * 5\<close>, in
  exact integer arithmetic: every \<open>setGreetingInL2\<close> call of a run carries \<open>P * 5\<close>, and
  for every \<open>P\<close> the script issues the call with \<open>P * 5\<close> once the calls before it have
  resolved.
\<close>

theorem adjusted_submission_price_is_five_times:
  assumes "getTxnSubmissionPrice env = Inr (P, t)"
  shows "(\<forall>g c m gp v. Call (SetGreetingInL2 g c m gp v) \<in> set (fst (greeter env)) \<longrightarrow> c = P * 5)
       \<and> (\<forall>n gp. resolved_before 12 (greeter_answers env) \<and> toNumber t = Inr n
                  \<and> getGasPrice env = Inr gp \<longrightarrow>
            Call (SetGreetingInL2 newGreeting (P * 5) maxGas gp (P * 5 + gp * maxGas))
              \<in> set (fst (greeter env)))"
proof (intro conjI allI impI)
  fix g c m gp v
  assume "Call (SetGreetingInL2 g c m gp v) \<in> set (fst (greeter env))"
  with assms show "c = P * 5"
    by (auto simp add: greeter_def greeter_main_def greeter_main_with_def quiet_in_script in_run
        Let_def split: sum.splits option.splits prod.splits)
next
  fix n gp
  assume "resolved_before 12 (greeter_answers env) \<and> toNumber t = Inr n
            \<and> getGasPrice env = Inr gp"
  with assms show "Call (SetGreetingInL2 newGreeting (P * 5) maxGas gp (P * 5 + gp * maxGas))
                     \<in> set (fst (greeter env))"
    by (clarsimp simp add: greeter_answers_def answers_simps)
       (simp add: greeter_def greeter_main_def greeter_main_with_def quiet_in_script in_run
        Let_def)
qed

theorem adjusted_submission_price_is_five_times_witness:
  "getTxnSubmissionPrice sdk_ok = Inr (1000, 1700000000)
   \<and> resolved_before 12 (greeter_answers sdk_ok)
   \<and> toNumber 1700000000 = Inr 1700000000
   \<and> getGasPrice sdk_ok = Inr 20
   \<and> Call (SetGreetingInL2 newGreeting (1000 * 5) maxGas 20 (1000 * 5 + 20 * maxGas))
        \<in> set (fst (greeter sdk_ok))"
proof -
  have p: "getTxnSubmissionPrice sdk_ok = Inr (1000, 1700000000)"
    by (simp add: sdk_ok_def)
  have r: "resolved_before 12 (greeter_answers sdk_ok)"
    by (simp add: greeter_answers_def answers_simps sdk_ok_def)
  have n: "toNumber 1700000000 = Inr 1700000000"
    by (simp add: toNumber_def)
  have g: "getGasPrice sdk_ok = Inr 20"
    by (simp add: sdk_ok_def)
  have c: "Call (SetGreetingInL2 newGreeting (1000 * 5) maxGas 20 (1000 * 5 + 20 * maxGas))
             \<in> set (fst (greeter sdk_ok))"
    by (rule adjusted_submission_price_is_five_times
          [OF p, THEN conjunct2, rule_format, OF conjI [OF r conjI [OF n g]]])
  from p r n g c show ?thesis
    by (intro conjI)
qed

text \<open>
  C4. The callvalue attached to the \<open>setGreetingInL2\<close> transaction equals the adjusted
  submission price plus the gas price bid times the gas limit, where the gas limit is the
  constant 100000, the bid is the queried L2 gas price and the adjusted price is five
  times the queried base price: every \<open>setGreetingInL2\<close> call of a run has this value,
  and for every price and bid the script issues the call with it once the calls before
  it have resolved.
\<close>

theorem callvalue_is_submission_price_plus_gas:
  "(\<forall>g c m gp v. Call (SetGreetingInL2 g c m gp v) \<in> set (fst (greeter env)) \<longrightarrow>
      v = c + gp * m \<and> m = maxGas \<and> maxGas = 100000 \<and> getGasPrice env = Inr gp
      \<and> (\<exists>P t. getTxnSubmissionPrice env = Inr (P, t) \<and> c = P * 5))
   \<and> (\<forall>P t n gp. resolved_before 12 (greeter_answers env)
          \<and> getTxnSubmissionPrice env = Inr (P, t) \<and> toNumber t = Inr n
          \<and> getGasPrice env = Inr gp \<longrightarrow>
        Call (SetGreetingInL2 newGreeting (P * 5) 100000 gp (P * 5 + gp * 100000))
          \<in> set (fst (greeter env)))"
proof (rule conjI)
  show "\<forall>g c m gp v. Call (SetGreetingInL2 g c m gp v) \<in> set (fst (greeter env)) \<longrightarrow>
      v = c + gp * m \<and> m = maxGas \<and> maxGas = 100000 \<and> getGasPrice env = Inr gp
      \<and> (\<exists>P t. getTxnSubmissionPrice env = Inr (P, t) \<and> c = P * 5)"
  proof (intro allI impI)
    fix g c m gp v
    assume "Call (SetGreetingInL2 g c m gp v) \<in> set (fst (greeter env))"
    then show "v = c + gp * m \<and> m = maxGas \<and> maxGas = 100000 \<and> getGasPrice env = Inr gp
        \<and> (\<exists>P t. getTxnSubmissionPrice env = Inr (P, t) \<and> c = P * 5)"
      by (auto simp add: greeter_def greeter_main_def greeter_main_with_def quiet_in_script
          in_run Let_def maxGas_def split: sum.splits option.splits prod.splits)
  qed
next
  show "\<forall>P t n gp. resolved_before 12 (greeter_answers env)
          \<and> getTxnSubmissionPrice env = Inr (P, t) \<and> toNumber t = Inr n
          \<and> getGasPrice env = Inr gp \<longrightarrow>
        Call (SetGreetingInL2 newGreeting (P * 5) 100000 gp (P * 5 + gp * 100000))
          \<in> set (fst (greeter env))"
  proof (intro allI impI)
    fix P t n gp
    assume "resolved_before 12 (greeter_answers env)
            \<and> getTxnSubmissionPrice env = Inr (P, t) \<and> toNumber t = Inr n
            \<and> getGasPrice env = Inr gp"
    then show "Call (SetGreetingInL2 newGreeting (P * 5) 100000 gp (P * 5 + gp * 100000))
                 \<in> set (fst (greeter env))"
      by (clarsimp simp add: greeter_answers_def answers_simps)
         (simp add: greeter_def greeter_main_def greeter_main_with_def quiet_in_script in_run
          Let_def maxGas_def)
  qed
qed

theorem callvalue_is_submission_price_plus_gas_witness:
  "resolved_before 12 (greeter_answers sdk_ok)
   \<and> getTxnSubmissionPrice sdk_ok = Inr (1000, 1700000000)
   \<and> toNumber 1700000000 = Inr 1700000000
   \<and> getGasPrice sdk_ok = Inr 20
   \<and> Call (SetGreetingInL2 newGreeting (1000 * 5) 100000 20 (1000 * 5 + 20 * 100000))
        \<in> set (fst (greeter sdk_ok))
   \<and> (1000 * 5 + 20 * 100000 :: int) = 2005000"
proof -
  have p: "getTxnSubmissionPrice sdk_ok = Inr (1000, 1700000000)"
    by (simp add: sdk_ok_def)
  have r: "resolved_before 12 (greeter_answers sdk_ok)"
    by (simp add: greeter_answers_def answers_simps sdk_ok_def)
  have n: "toNumber 1700000000 = Inr 1700000000"
    by (simp add: toNumber_def)
  have g: "getGasPrice sdk_ok = Inr 20"
    by (simp add: sdk_ok_def)
  have a: "(1000 * 5 + 20 * 100000 :: int) = 2005000"
    by simp
  have c: "Call (SetGreetingInL2 newGreeting (1000 * 5) 100000 20 (1000 * 5 + 20 * 100000))
             \<in> set (fst (greeter sdk_ok))"
    by (rule callvalue_is_submission_price_plus_gas
          [THEN conjunct2, rule_format, OF conjI [OF r conjI [OF p conjI [OF n g]]]])
  from r p n g c a show ?thesis
    by (intro conjI)
qed




text \<open>
  C6. In each of the five scripts, when the first \<open>k\<close> awaited calls resolve and the next
  one rejects with \<open>e\<close> (the wait that times out, for instance), and no guard ends the run
  before that call, the process is: \<open>k + 1\<close> calls, so the rejected call is issued once
  and none after it, then the throw of \<open>e\<close>, \<open>console.error\<close> of \<open>e\<close> and
  \<open>process.exit(1)\<close>, with status 1. The same holds for the errors that \<open>main\<close> throws
  itself: the missing sequence number and \<open>toNumber\<close> out of range. And whatever is
  thrown in a run is followed by exactly the error message and the exit with status 1.
\<close>

theorem thrown_error_is_logged_and_exits_1:
  "(\<forall>k e. first_rejection (deposit_via_lib_answers env) k e
        \<and> (5 \<le> k \<longrightarrow> getInboxSeqNumFromContractTransaction env \<noteq> Inr None)
      \<longrightarrow> stops_with (deposit_via_lib env) (Suc k) e)
   \<and> (\<forall>k e. first_rejection (deposit_via_inbox_answers env) k e
        \<and> (5 \<le> k \<longrightarrow> getInboxSeqNumFromContractTransaction env \<noteq> Inr None)
      \<longrightarrow> stops_with (deposit_via_inbox env) (Suc k) e)
   \<and> (\<forall>k e. first_rejection (withdraw_via_lib_answers env) k e
        \<and> (2 \<le> k \<longrightarrow> (\<exists>b. getL2EthBalance_initial env = Inr b
                              \<and> \<not> b < ethFromL2WithdrawAmount_lib))
      \<longrightarrow> stops_with (withdraw_via_lib env) (Suc k) e)
   \<and> (\<forall>k e. first_rejection (withdraw_via_arbsys_answers env) k e
        \<and> (1 \<le> k \<longrightarrow> (\<exists>b. getBalance_initial env = Inr b
                              \<and> \<not> b < ethFromL2WithdrawAmount_arbsys))
      \<longrightarrow> stops_with (withdraw_via_arbsys env) (Suc k) e)
   \<and> (\<forall>k e. first_rejection (greeter_answers env) k e
        \<and> (13 \<le> k \<longrightarrow> (\<exists>P t n. getTxnSubmissionPrice env = Inr (P, t) \<and> toNumber t = Inr n))
        \<and> (17 \<le> k \<longrightarrow> getInboxSeqNumFromContractTransaction env \<noteq> Inr None)
      \<longrightarrow> stops_with (greeter env) (Suc k) e)
   \<and> (resolved_before 5 (deposit_via_lib_answers env)
        \<and> getInboxSeqNumFromContractTransaction env = Inr None
      \<longrightarrow> stops_with (deposit_via_lib env) 5 (Error ''no seq num''))
   \<and> (resolved_before 5 (deposit_via_inbox_answers env)
        \<and> getInboxSeqNumFromContractTransaction env = Inr None
      \<longrightarrow> stops_with (deposit_via_inbox env) 5 (Error ''No seq num''))
   \<and> (\<forall>P t e. resolved_before 13 (greeter_answers env)
        \<and> getTxnSubmissionPrice env = Inr (P, t) \<and> toNumber t = Inl e
      \<longrightarrow> stops_with (greeter env) 13 e)
   \<and> (resolved_before 17 (greeter_answers env)
        \<and> (\<exists>P t n. getTxnSubmissionPrice env = Inr (P, t) \<and> toNumber t = Inr n)
        \<and> getInboxSeqNumFromContractTransaction env = Inr None
      \<longrightarrow> stops_with (greeter env) 17 (Error ''Sequence number not found!''))
   \<and> (\<forall>run e. run \<in> {deposit_via_lib, deposit_via_inbox, withdraw_via_lib,
                        withdraw_via_arbsys, greeter}
        \<and> Throw e \<in> set (fst (run env))
      \<longrightarrow> snd (run env) = 1
          \<and> (\<exists>pre. fst (run env) = pre @ [Throw e, ConsoleError e, ProcessExit 1]
                    \<and> list_all quiet pre))"
proof (intro conjI)
  show "\<forall>k e. first_rejection (deposit_via_lib_answers env) k e
        \<and> (5 \<le> k \<longrightarrow> getInboxSeqNumFromContractTransaction env \<noteq> Inr None)
      \<longrightarrow> stops_with (deposit_via_lib env) (Suc k) e"
  proof (intro allI impI)
    fix k e
    assume "first_rejection (deposit_via_lib_answers env) k e
        \<and> (5 \<le> k \<longrightarrow> getInboxSeqNumFromContractTransaction env \<noteq> Inr None)"
    then have "halts (deposit_via_lib_main env) (Suc k) e"
      by (auto simp add: deposit_via_lib_answers_def answers_simps
          deposit_via_lib_main_def halts_run Let_def split: option.splits)
    then show "stops_with (deposit_via_lib env) (Suc k) e"
      unfolding deposit_via_lib_def by (rule stops_with_script)
  qed
  show "\<forall>k e. first_rejection (deposit_via_inbox_answers env) k e
        \<and> (5 \<le> k \<longrightarrow> getInboxSeqNumFromContractTransaction env \<noteq> Inr None)
      \<longrightarrow> stops_with (deposit_via_inbox env) (Suc k) e"
  proof (intro allI impI)
    fix k e
    assume "first_rejection (deposit_via_inbox_answers env) k e
        \<and> (5 \<le> k \<longrightarrow> getInboxSeqNumFromContractTransaction env \<noteq> Inr None)"
    then have "halts (deposit_via_inbox_main env) (Suc k) e"
      by (auto simp add: deposit_via_inbox_answers_def answers_simps
          deposit_via_inbox_main_def halts_run Let_def split: option.splits)
    then show "stops_with (deposit_via_inbox env) (Suc k) e"
      unfolding deposit_via_inbox_def by (rule stops_with_script)
  qed
  show "\<forall>k e. first_rejection (withdraw_via_lib_answers env) k e
        \<and> (2 \<le> k \<longrightarrow> (\<exists>b. getL2EthBalance_initial env = Inr b
                              \<and> \<not> b < ethFromL2WithdrawAmount_lib))
      \<longrightarrow> stops_with (withdraw_via_lib env) (Suc k) e"
  proof (intro allI impI)
    fix k e
    assume "first_rejection (withdraw_via_lib_answers env) k e
        \<and> (2 \<le> k \<longrightarrow> (\<exists>b. getL2EthBalance_initial env = Inr b
                              \<and> \<not> b < ethFromL2WithdrawAmount_lib))"
    then have "halts (withdraw_via_lib_main env) (Suc k) e"
      by (auto simp add: withdraw_via_lib_answers_def answers_simps
          withdraw_via_lib_main_def halts_run Let_def)
    then show "stops_with (withdraw_via_lib env) (Suc k) e"
      unfolding withdraw_via_lib_def by (rule stops_with_script)
  qed
  show "\<forall>k e. first_rejection (withdraw_via_arbsys_answers env) k e
        \<and> (1 \<le> k \<longrightarrow> (\<exists>b. getBalance_initial env = Inr b
                              \<and> \<not> b < ethFromL2WithdrawAmount_arbsys))
      \<longrightarrow> stops_with (withdraw_via_arbsys env) (Suc k) e"
  proof (intro allI impI)
    fix k e
    assume "first_rejection (withdraw_via_arbsys_answers env) k e
        \<and> (1 \<le> k \<longrightarrow> (\<exists>b. getBalance_initial env = Inr b
                              \<and> \<not> b < ethFromL2WithdrawAmount_arbsys))"
    then have "halts (withdraw_via_arbsys_main env) (Suc k) e"
      by (auto simp add: withdraw_via_arbsys_answers_def answers_simps
          withdraw_via_arbsys_main_def halts_run Let_def)
    then show "stops_with (withdraw_via_arbsys env) (Suc k) e"
      unfolding withdraw_via_arbsys_def by (rule stops_with_script)
  qed
  show "\<forall>k e. first_rejection (greeter_answers env) k e
        \<and> (13 \<le> k \<longrightarrow> (\<exists>P t n. getTxnSubmissionPrice env = Inr (P, t) \<and> toNumber t = Inr n))
        \<and> (17 \<le> k \<longrightarrow> getInboxSeqNumFromContractTransaction env \<noteq> Inr None)
      \<longrightarrow> stops_with (greeter env) (Suc k) e"
  proof (intro allI impI)
    fix k e
    assume "first_rejection (greeter_answers env) k e
        \<and> (13 \<le> k \<longrightarrow> (\<exists>P t n. getTxnSubmissionPrice env = Inr (P, t) \<and> toNumber t = Inr n))
        \<and> (17 \<le> k \<longrightarrow> getInboxSeqNumFromContractTransaction env \<noteq> Inr None)"
    then have "halts (greeter_main env) (Suc k) e"
      by (auto simp add: greeter_answers_def answers_simps
          greeter_main_def greeter_main_with_def halts_run Let_def split: option.splits)
    then show "stops_with (greeter env) (Suc k) e"
      unfolding greeter_def by (rule stops_with_script)
  qed
  show "resolved_before 5 (deposit_via_lib_answers env)
        \<and> getInboxSeqNumFromContractTransaction env = Inr None
      \<longrightarrow> stops_with (deposit_via_lib env) 5 (Error ''no seq num'')"
  proof
    assume "resolved_before 5 (deposit_via_lib_answers env)
        \<and> getInboxSeqNumFromContractTransaction env = Inr None"
    then have "halts (deposit_via_lib_main env) 5 (Error ''no seq num'')"
      by (clarsimp simp add: deposit_via_lib_answers_def answers_simps)
         (simp add: deposit_via_lib_main_def halts_run)
    then show "stops_with (deposit_via_lib env) 5 (Error ''no seq num'')"
      unfolding deposit_via_lib_def by (rule stops_with_script)
  qed
  show "resolved_before 5 (deposit_via_inbox_answers env)
        \<and> getInboxSeqNumFromContractTransaction env = Inr None
      \<longrightarrow> stops_with (deposit_via_inbox env) 5 (Error ''No seq num'')"
  proof
    assume "resolved_before 5 (deposit_via_inbox_answers env)
        \<and> getInboxSeqNumFromContractTransaction env = Inr None"
    then have "halts (deposit_via_inbox_main env) 5 (Error ''No seq num'')"
      by (clarsimp simp add: deposit_via_inbox_answers_def answers_simps)
         (simp add: deposit_via_inbox_main_def halts_run)
    then show "stops_with (deposit_via_inbox env) 5 (Error ''No seq num'')"
      unfolding deposit_via_inbox_def by (rule stops_with_script)
  qed
  show "\<forall>P t e. resolved_before 13 (greeter_answers env)
        \<and> getTxnSubmissionPrice env = Inr (P, t) \<and> toNumber t = Inl e
      \<longrightarrow> stops_with (greeter env) 13 e"
  proof (intro allI impI)
    fix P t e
    assume "resolved_before 13 (greeter_answers env)
        \<and> getTxnSubmissionPrice env = Inr (P, t) \<and> toNumber t = Inl e"
    then have "halts (greeter_main env) 13 e"
      by (clarsimp simp add: greeter_answers_def answers_simps)
         (simp add: greeter_main_def greeter_main_with_def halts_run Let_def)
    then show "stops_with (greeter env) 13 e"
      unfolding greeter_def by (rule stops_with_script)
  qed
  show "resolved_before 17 (greeter_answers env)
        \<and> (\<exists>P t n. getTxnSubmissionPrice env = Inr (P, t) \<and> toNumber t = Inr n)
        \<and> getInboxSeqNumFromContractTransaction env = Inr None
      \<longrightarrow> stops_with (greeter env) 17 (Error ''Sequence number not found!'')"
  proof
    assume "resolved_before 17 (greeter_answers env)
        \<and> (\<exists>P t n. getTxnSubmissionPrice env = Inr (P, t) \<and> toNumber t = Inr n)
        \<and> getInboxSeqNumFromContractTransaction env = Inr None"
    then have "halts (greeter_main env) 17 (Error ''Sequence number not found!'')"
      by (clarsimp simp add: greeter_answers_def answers_simps)
         (simp add: greeter_main_def greeter_main_with_def halts_run Let_def)
    then show "stops_with (greeter env) 17 (Error ''Sequence number not found!'')"
      unfolding greeter_def by (rule stops_with_script)
  qed
  show "\<forall>run e. run \<in> {deposit_via_lib, deposit_via_inbox, withdraw_via_lib,
                        withdraw_via_arbsys, greeter}
        \<and> Throw e \<in> set (fst (run env))
      \<longrightarrow> snd (run env) = 1
          \<and> (\<exists>pre. fst (run env) = pre @ [Throw e, ConsoleError e, ProcessExit 1]
                    \<and> list_all quiet pre)"
  proof (intro allI impI)
    fix run e
    assume "run \<in> {deposit_via_lib, deposit_via_inbox, withdraw_via_lib,
                        withdraw_via_arbsys, greeter}
        \<and> Throw e \<in> set (fst (run env))"
    then show "snd (run env) = 1
          \<and> (\<exists>pre. fst (run env) = pre @ [Throw e, ConsoleError e, ProcessExit 1]
                    \<and> list_all quiet pre)"
      by (elim conjE) (rule throw_is_caught)
  qed
qed

theorem thrown_error_is_logged_and_exits_1_witness:
  "first_rejection (deposit_via_lib_answers sdk_timeout) 6 (Error ''timeout exceeded'')
   \<and> getInboxSeqNumFromContractTransaction sdk_timeout \<noteq> Inr None
   \<and> stops_with (deposit_via_lib sdk_timeout) 7 (Error ''timeout exceeded'')
   \<and> first_rejection (deposit_via_inbox_answers sdk_timeout) 6 (Error ''timeout exceeded'')
   \<and> stops_with (deposit_via_inbox sdk_timeout) 7 (Error ''timeout exceeded'')
   \<and> first_rejection (withdraw_via_lib_answers sdk_init_rejected) 0
        (Error ''could not detect network'')
   \<and> stops_with (withdraw_via_lib sdk_init_rejected) 1 (Error ''could not detect network'')
   \<and> first_rejection (withdraw_via_lib_answers sdk_withdrawal_rejected) 2
        (Error ''insufficient funds'')
   \<and> stops_with (withdraw_via_lib sdk_withdrawal_rejected) 3 (Error ''insufficient funds'')
   \<and> first_rejection (withdraw_via_arbsys_answers sdk_withdrawal_rejected) 1
        (Error ''insufficient funds'')
   \<and> stops_with (withdraw_via_arbsys sdk_withdrawal_rejected) 2 (Error ''insufficient funds'')
   \<and> first_rejection (greeter_answers sdk_timeout) 18 (Error ''timeout exceeded'')
   \<and> stops_with (greeter sdk_timeout) 19 (Error ''timeout exceeded'')
   \<and> resolved_before 5 (deposit_via_lib_answers sdk_no_seq_num)
   \<and> resolved_before 5 (deposit_via_inbox_answers sdk_no_seq_num)
   \<and> resolved_before 17 (greeter_answers sdk_no_seq_num)
   \<and> getInboxSeqNumFromContractTransaction sdk_no_seq_num = Inr None
   \<and> stops_with (deposit_via_lib sdk_no_seq_num) 5 (Error ''no seq num'')
   \<and> stops_with (deposit_via_inbox sdk_no_seq_num) 5 (Error ''No seq num'')
   \<and> stops_with (greeter sdk_no_seq_num) 17 (Error ''Sequence number not found!'')
   \<and> resolved_before 13 (greeter_answers sdk_far_timestamp)
   \<and> getTxnSubmissionPrice sdk_far_timestamp = Inr (1000, 9007199254740992)
   \<and> toNumber 9007199254740992 = Inl (Error ''overflow'')
   \<and> stops_with (greeter sdk_far_timestamp) 13 (Error ''overflow'')
   \<and> Throw (Error ''timeout exceeded'') \<in> set (fst (deposit_via_lib sdk_timeout))
   \<and> snd (deposit_via_lib sdk_timeout) = 1"
proof -
  note t = thrown_error_is_logged_and_exits_1 [of sdk_timeout]
  note i = thrown_error_is_logged_and_exits_1 [of sdk_init_rejected]
  note w = thrown_error_is_logged_and_exits_1 [of sdk_withdrawal_rejected]
  note s = thrown_error_is_logged_and_exits_1 [of sdk_no_seq_num]
  note f = thrown_error_is_logged_and_exits_1 [of sdk_far_timestamp]
  have f6: "first_rejection (deposit_via_lib_answers sdk_timeout) 6 (Error ''timeout exceeded'')"
    by (simp add: deposit_via_lib_answers_def answers_simps sdk_timeout_def sdk_ok_def)
  have n6: "getInboxSeqNumFromContractTransaction sdk_timeout \<noteq> Inr None"
    by (simp add: sdk_timeout_def sdk_ok_def)
  have s7_suc: "stops_with (deposit_via_lib sdk_timeout) (Suc 6) (Error ''timeout exceeded'')"
    using f6 n6 by (intro t [THEN conjunct1, rule_format]) simp
  have s7: "stops_with (deposit_via_lib sdk_timeout) 7 (Error ''timeout exceeded'')"
    using s7_suc by simp
  have g6: "first_rejection (deposit_via_inbox_answers sdk_timeout) 6 (Error ''timeout exceeded'')"
    by (simp add: deposit_via_inbox_answers_def answers_simps sdk_timeout_def sdk_ok_def)
  have i7_suc: "stops_with (deposit_via_inbox sdk_timeout) (Suc 6) (Error ''timeout exceeded'')"
    using g6 n6 by (intro t [THEN conjunct2, THEN conjunct1, rule_format]) simp
  have i7: "stops_with (deposit_via_inbox sdk_timeout) 7 (Error ''timeout exceeded'')"
    using i7_suc by simp
  have f0: "first_rejection (withdraw_via_lib_answers sdk_init_rejected) 0
              (Error ''could not detect network'')"
    by (simp add: withdraw_via_lib_answers_def answers_simps sdk_init_rejected_def sdk_ok_def)
  have s1_suc: "stops_with (withdraw_via_lib sdk_init_rejected) (Suc 0)
              (Error ''could not detect network'')"
    using f0 by (intro i [THEN conjunct2, THEN conjunct2, THEN conjunct1, rule_format]) simp
  have s1: "stops_with (withdraw_via_lib sdk_init_rejected) 1
              (Error ''could not detect network'')"
    using s1_suc by simp
  have f2: "first_rejection (withdraw_via_lib_answers sdk_withdrawal_rejected) 2
              (Error ''insufficient funds'')"
    by (simp add: withdraw_via_lib_answers_def answers_simps sdk_withdrawal_rejected_def
        sdk_ok_def)
  have b2: "\<exists>b. getL2EthBalance_initial sdk_withdrawal_rejected = Inr b
              \<and> \<not> b < ethFromL2WithdrawAmount_lib"
    by (simp add: sdk_withdrawal_rejected_def sdk_ok_def ethFromL2WithdrawAmount_lib_def)
  have s3_suc: "stops_with (withdraw_via_lib sdk_withdrawal_rejected) (Suc 2)
              (Error ''insufficient funds'')"
    using f2 b2 by (intro w [THEN conjunct2, THEN conjunct2, THEN conjunct1, rule_format]) simp
  have s3: "stops_with (withdraw_via_lib sdk_withdrawal_rejected) 3
              (Error ''insufficient funds'')"
    using s3_suc by simp
  have a1: "first_rejection (withdraw_via_arbsys_answers sdk_withdrawal_rejected) 1
              (Error ''insufficient funds'')"
    by (simp add: withdraw_via_arbsys_answers_def answers_simps sdk_withdrawal_rejected_def
        sdk_ok_def)
  have c1: "\<exists>b. getBalance_initial sdk_withdrawal_rejected = Inr b
              \<and> \<not> b < ethFromL2WithdrawAmount_arbsys"
    by (simp add: sdk_withdrawal_rejected_def sdk_ok_def ethFromL2WithdrawAmount_arbsys_def)
  have a2_suc: "stops_with (withdraw_via_arbsys sdk_withdrawal_rejected) (Suc 1)
              (Error ''insufficient funds'')"
    using a1 c1
    by (intro w [THEN conjunct2, THEN conjunct2, THEN conjunct2, THEN conjunct1, rule_format])
       simp
  have a2: "stops_with (withdraw_via_arbsys sdk_withdrawal_rejected) 2
              (Error ''insufficient funds'')"
    using a2_suc by (simp add: numeral_2_eq_2)
  have f18: "first_rejection (greeter_answers sdk_timeout) 18 (Error ''timeout exceeded'')"
    by (simp add: greeter_answers_def answers_simps sdk_timeout_def sdk_ok_def)
  have p: "\<exists>P t n. getTxnSubmissionPrice sdk_timeout = Inr (P, t) \<and> toNumber t = Inr n"
    by (simp add: sdk_timeout_def sdk_ok_def toNumber_def)
  have s19_suc: "stops_with (greeter sdk_timeout) (Suc 18) (Error ''timeout exceeded'')"
    using f18 n6 p
    by (intro t [THEN conjunct2, THEN conjunct2, THEN conjunct2, THEN conjunct2,
          THEN conjunct1, rule_format]) simp
  have s19: "stops_with (greeter sdk_timeout) 19 (Error ''timeout exceeded'')"
    using s19_suc by simp
  have r5: "resolved_before 5 (deposit_via_lib_answers sdk_no_seq_num)"
    by (simp add: deposit_via_lib_answers_def answers_simps sdk_no_seq_num_def sdk_ok_def)
  have q5: "resolved_before 5 (deposit_via_inbox_answers sdk_no_seq_num)"
    by (simp add: deposit_via_inbox_answers_def answers_simps sdk_no_seq_num_def sdk_ok_def)
  have r17: "resolved_before 17 (greeter_answers sdk_no_seq_num)"
    by (simp add: greeter_answers_def answers_simps sdk_no_seq_num_def sdk_ok_def)
  have u: "getInboxSeqNumFromContractTransaction sdk_no_seq_num = Inr None"
    by (simp add: sdk_no_seq_num_def)
  have p': "\<exists>P t n. getTxnSubmissionPrice sdk_no_seq_num = Inr (P, t) \<and> toNumber t = Inr n"
    by (simp add: sdk_no_seq_num_def sdk_ok_def toNumber_def)
  have l5: "stops_with (deposit_via_lib sdk_no_seq_num) 5 (Error ''no seq num'')"
    using r5 u
    by (intro s [THEN conjunct2, THEN conjunct2, THEN conjunct2, THEN conjunct2,
          THEN conjunct2, THEN conjunct1, rule_format]) simp
  have i5: "stops_with (deposit_via_inbox sdk_no_seq_num) 5 (Error ''No seq num'')"
    using q5 u
    by (intro s [THEN conjunct2, THEN conjunct2, THEN conjunct2, THEN conjunct2,
          THEN conjunct2, THEN conjunct2, THEN conjunct1, rule_format]) simp
  have s17: "stops_with (greeter sdk_no_seq_num) 17 (Error ''Sequence number not found!'')"
    using r17 u p'
    by (intro s [THEN conjunct2, THEN conjunct2, THEN conjunct2, THEN conjunct2,
          THEN conjunct2, THEN conjunct2, THEN conjunct2, THEN conjunct2, THEN conjunct1,
          rule_format]) simp
  have r13: "resolved_before 13 (greeter_answers sdk_far_timestamp)"
    by (simp add: greeter_answers_def answers_simps sdk_far_timestamp_def sdk_ok_def)
  have pf: "getTxnSubmissionPrice sdk_far_timestamp = Inr (1000, 9007199254740992)"
    by (simp add: sdk_far_timestamp_def)
  have ov: "toNumber 9007199254740992 = Inl (Error ''overflow'')"
    by (simp add: toNumber_def)
  have s13: "stops_with (greeter sdk_far_timestamp) 13 (Error ''overflow'')"
    using r13 pf ov
    by (intro f [THEN conjunct2, THEN conjunct2, THEN conjunct2, THEN conjunct2,
          THEN conjunct2, THEN conjunct2, THEN conjunct2, THEN conjunct1, rule_format,
          of 1000 9007199254740992]) simp
  have m: "Throw (Error ''timeout exceeded'') \<in> set (fst (deposit_via_lib sdk_timeout))"
    by (simp add: deposit_via_lib_def deposit_via_lib_main_def Throw_in_script in_run
        sdk_timeout_def sdk_ok_def)
  have x: "snd (deposit_via_lib sdk_timeout) = 1"
    using m
    by (intro t [THEN conjunct2, THEN conjunct2, THEN conjunct2, THEN conjunct2,
          THEN conjunct2, THEN conjunct2, THEN conjunct2, THEN conjunct2, THEN conjunct2,
          rule_format, THEN conjunct1, of deposit_via_lib "Error ''timeout exceeded''"]) simp
  from f6 n6 s7 g6 i7 f0 s1 f2 s3 a1 a2 f18 s19 r5 q5 r17 u l5 i5 s17 r13 pf ov s13 m x
  show ?thesis
    by (intro conjI)
qed

text \<open>
  C7. The claim as stated fails in its last part: the timeout literal is passed to
  \<open>waitForTransaction\<close> in two scripts, deposit-via-lib and deposit-via-inbox, not in
  exactly one; the greeter passes none.
\<close>

theorem timeout_literal_in_two_scripts:
  "timeouts (fst (deposit_via_lib sdk_ok)) = [Some 720000]
   \<and> timeouts (fst (deposit_via_inbox sdk_ok)) = [Some 720000]
   \<and> timeouts (fst (greeter sdk_ok)) = [None]"
  by (simp add: deposit_via_lib_def deposit_via_lib_main_def
      deposit_via_inbox_def deposit_via_inbox_main_def
      greeter_def greeter_main_def greeter_main_with_def
      sdk_ok_def index0_def toNumber_def Let_def
      await_def console_log_def console_warn_def emit_def returned_def script_def)

text \<open>
  C7, amended. The wait for the counterpart L2 transaction is an awaited call of
  \<open>waitForTransaction\<close> on the predicted hash, with an optional timeout: the two deposit
  scripts pass \<open>1000 * 60 * 12\<close> milliseconds (12 minutes) and no confirmation count, the
  greeter passes neither, and the withdrawal scripts do not wait for an L2 transaction.
  The wait blocks: the message that follows it is printed only when the wait has resolved,
  with the hash of the receipt it resolved to.
\<close>

theorem wait_timeout_is_12_minutes_where_given:
  "(\<forall>h c t. Call (WaitForTransaction h c t) \<in> set (fst (deposit_via_lib env)) \<longrightarrow>
      c = None \<and> t = Some (1000 * 60 * 12) \<and> calculateL2TransactionHash env = Inr h)
   \<and> (\<forall>h c t. Call (WaitForTransaction h c t) \<in> set (fst (deposit_via_inbox env)) \<longrightarrow>
      c = None \<and> t = Some (1000 * 60 * 12) \<and> calculateL2TransactionHash env = Inr h)
   \<and> (\<forall>h c t. Call (WaitForTransaction h c t) \<in> set (fst (greeter env)) \<longrightarrow>
      c = None \<and> t = None \<and> calculateL2RetryableTransactionHash env = Inr h)
   \<and> (\<forall>h c t. Call (WaitForTransaction h c t) \<notin> set (fst (withdraw_via_lib env)))
   \<and> (\<forall>h c t. Call (WaitForTransaction h c t) \<notin> set (fst (withdraw_via_arbsys env)))
   \<and> (\<forall>x. ConsoleLog [Str (''L2 transaction found! '' @ x)] \<in> set (fst (deposit_via_lib env)) \<longrightarrow>
      (\<exists>r. waitForTransaction env = Inr r \<and> x = transactionHash r))
   \<and> (\<forall>x. ConsoleLog [Str ''L2 tx found:'', Str x] \<in> set (fst (deposit_via_inbox env)) \<longrightarrow>
      (\<exists>r. waitForTransaction env = Inr r \<and> x = transactionHash r))
   \<and> (\<forall>x. ConsoleLog [Str (''L2 retryable txn executed '' @ partying_face @ '' '' @ x)]
        \<in> set (fst (greeter env)) \<longrightarrow>
      (\<exists>r. waitForTransaction env = Inr r \<and> x = transactionHash r))"
proof (intro conjI)
  show "\<forall>h c t. Call (WaitForTransaction h c t) \<in> set (fst (deposit_via_lib env)) \<longrightarrow>
      c = None \<and> t = Some (1000 * 60 * 12) \<and> calculateL2TransactionHash env = Inr h"
    by (auto simp add: deposit_via_lib_def deposit_via_lib_main_def quiet_in_script in_run Let_def
        split: sum.splits option.splits)
next
  show "\<forall>h c t. Call (WaitForTransaction h c t) \<in> set (fst (deposit_via_inbox env)) \<longrightarrow>
      c = None \<and> t = Some (1000 * 60 * 12) \<and> calculateL2TransactionHash env = Inr h"
    by (auto simp add: deposit_via_inbox_def deposit_via_inbox_main_def quiet_in_script in_run
        Let_def split: sum.splits option.splits)
next
  show "\<forall>h c t. Call (WaitForTransaction h c t) \<in> set (fst (greeter env)) \<longrightarrow>
      c = None \<and> t = None \<and> calculateL2RetryableTransactionHash env = Inr h"
    by (auto simp add: greeter_def greeter_main_def greeter_main_with_def quiet_in_script in_run
        Let_def split: sum.splits option.splits prod.splits)
next
  show "\<forall>h c t. Call (WaitForTransaction h c t) \<notin> set (fst (withdraw_via_lib env))"
    by (auto simp add: withdraw_via_lib_def withdraw_via_lib_main_def quiet_in_script in_run
        Let_def split: sum.splits option.splits if_splits)
next
  show "\<forall>h c t. Call (WaitForTransaction h c t) \<notin> set (fst (withdraw_via_arbsys env))"
    by (auto simp add: withdraw_via_arbsys_def withdraw_via_arbsys_main_def quiet_in_script in_run
        Let_def split: sum.splits option.splits if_splits)
next
  show "\<forall>x. ConsoleLog [Str (''L2 transaction found! '' @ x)] \<in> set (fst (deposit_via_lib env)) \<longrightarrow>
        (\<exists>r. waitForTransaction env = Inr r \<and> x = transactionHash r)"
    by (auto simp add: deposit_via_lib_def deposit_via_lib_main_def quiet_in_script in_run Let_def
        split: sum.splits option.splits)
next
  show "\<forall>x. ConsoleLog [Str ''L2 tx found:'', Str x] \<in> set (fst (deposit_via_inbox env)) \<longrightarrow>
        (\<exists>r. waitForTransaction env = Inr r \<and> x = transactionHash r)"
    by (auto simp add: deposit_via_inbox_def deposit_via_inbox_main_def quiet_in_script in_run
        Let_def split: sum.splits option.splits)
next
  show "\<forall>x. ConsoleLog [Str (''L2 retryable txn executed '' @ partying_face @ '' '' @ x)]
            \<in> set (fst (greeter env)) \<longrightarrow>
        (\<exists>r. waitForTransaction env = Inr r \<and> x = transactionHash r)"
    by (auto simp add: greeter_def greeter_main_def greeter_main_with_def quiet_in_script in_run
        Let_def victory_hand_def split: sum.splits option.splits prod.splits)
qed

theorem wait_timeout_is_12_minutes_where_given_witness:
  "Call (WaitForTransaction ''0x22'' None (Some 720000)) \<in> set (fst (deposit_via_lib sdk_ok))
   \<and> Call (WaitForTransaction ''0x22'' None (Some 720000)) \<in> set (fst (deposit_via_inbox sdk_ok))
   \<and> Call (WaitForTransaction ''0x55'' None None) \<in> set (fst (greeter sdk_ok))
   \<and> ConsoleLog [Str (''L2 transaction found! '' @ ''0x22'')] \<in> set (fst (deposit_via_lib sdk_ok))
   \<and> ConsoleLog [Str ''L2 tx found:'', Str ''0x22''] \<in> set (fst (deposit_via_inbox sdk_ok))
   \<and> ConsoleLog [Str (''L2 retryable txn executed '' @ partying_face @ '' '' @ ''0x22'')]
        \<in> set (fst (greeter sdk_ok))
   \<and> Some (720000 :: nat) = Some (1000 * 60 * 12)
   \<and> calculateL2TransactionHash sdk_ok = Inr ''0x22''
   \<and> calculateL2RetryableTransactionHash sdk_ok = Inr ''0x55''
   \<and> (\<exists>r. waitForTransaction sdk_ok = Inr r \<and> ''0x22'' = transactionHash r)"
proof -
  have 1: "Call (WaitForTransaction ''0x22'' None (Some 720000)) \<in> set (fst (deposit_via_lib sdk_ok))"
    by (simp add: deposit_via_lib_def deposit_via_lib_main_def quiet_in_script in_run sdk_ok_def)
  have 2: "Call (WaitForTransaction ''0x22'' None (Some 720000)) \<in> set (fst (deposit_via_inbox sdk_ok))"
    by (simp add: deposit_via_inbox_def deposit_via_inbox_main_def quiet_in_script in_run sdk_ok_def)
  have 3: "Call (WaitForTransaction ''0x55'' None None) \<in> set (fst (greeter sdk_ok))"
    by (simp add: greeter_def greeter_main_def greeter_main_with_def quiet_in_script in_run
        sdk_ok_def toNumber_def Let_def)
  have 4: "ConsoleLog [Str (''L2 transaction found! '' @ ''0x22'')] \<in> set (fst (deposit_via_lib sdk_ok))"
    by (simp add: deposit_via_lib_def deposit_via_lib_main_def quiet_in_script in_run sdk_ok_def)
  have 5: "ConsoleLog [Str ''L2 tx found:'', Str ''0x22''] \<in> set (fst (deposit_via_inbox sdk_ok))"
    by (simp add: deposit_via_inbox_def deposit_via_inbox_main_def quiet_in_script in_run sdk_ok_def)
  have 6: "ConsoleLog [Str (''L2 retryable txn executed '' @ partying_face @ '' '' @ ''0x22'')]
             \<in> set (fst (greeter sdk_ok))"
    by (simp add: greeter_def greeter_main_def greeter_main_with_def quiet_in_script in_run
        sdk_ok_def toNumber_def Let_def)
  from wait_timeout_is_12_minutes_where_given [of sdk_ok] 1 2 3 4 5 6
  show ?thesis by blast
qed

text \<open>
  C8. In both withdrawal scripts, when the queried L2 balance equals the configured
  withdrawal amount, the guard (a strict less-than) lets the run pass: the next events
  are the "properly funded" message and the withdrawal call with that amount.
\<close>

theorem exact_balance_passes_guard:
  "(bridge_init env = Inr () \<and> getL2EthBalance_initial env = Inr ethFromL2WithdrawAmount_lib \<longrightarrow>
      take 5 (fst (withdraw_via_lib env)) =
        [ConsoleLog [Str ''Withdraw Eth via arb-ts''], Call BridgeInit, Call GetL2EthBalance,
         ConsoleLog [Str ''Wallet properly funded: initiating withdrawal now''],
         Call (WithdrawETH ethFromL2WithdrawAmount_lib)])
   \<and> (getBalance_initial env = Inr ethFromL2WithdrawAmount_arbsys \<longrightarrow>
      take 4 (fst (withdraw_via_arbsys env)) =
        [ConsoleLog [Str ''Withdraw Eth via ArbSys''], Call (GetBalance (l2Wallet_address env)),
         ConsoleLog [Str ''Wallet properly funded: initiating withdrawal now''],
         Call (ArbSysWithdrawEth (l2Wallet_address env) ethFromL2WithdrawAmount_arbsys)])"
  by (simp add: withdraw_via_lib_def withdraw_via_lib_main_def
      withdraw_via_arbsys_def withdraw_via_arbsys_main_def fst_script
      await_def console_log_def emit_def)

theorem exact_balance_passes_guard_witness:
  "bridge_init sdk_exact_balance = Inr ()
   \<and> getL2EthBalance_initial sdk_exact_balance = Inr ethFromL2WithdrawAmount_lib
   \<and> getBalance_initial sdk_exact_balance = Inr ethFromL2WithdrawAmount_arbsys
   \<and> take 5 (fst (withdraw_via_lib sdk_exact_balance)) =
        [ConsoleLog [Str ''Withdraw Eth via arb-ts''], Call BridgeInit, Call GetL2EthBalance,
         ConsoleLog [Str ''Wallet properly funded: initiating withdrawal now''],
         Call (WithdrawETH 1000000000000)]
   \<and> take 4 (fst (withdraw_via_arbsys sdk_exact_balance)) =
        [ConsoleLog [Str ''Withdraw Eth via ArbSys''], Call (GetBalance ''0xaa''),
         ConsoleLog [Str ''Wallet properly funded: initiating withdrawal now''],
         Call (ArbSysWithdrawEth ''0xaa'' 1000000000000000)]"
  using exact_balance_passes_guard [of sdk_exact_balance]
  by (simp add: sdk_exact_balance_def sdk_ok_def ethFromL2WithdrawAmount_lib_def
      ethFromL2WithdrawAmount_arbsys_def)

text \<open>
  C9. For every greeting string, the calldata length that the greeter script passes to
  the submission-price query is the byte length of the ABI encoding of the string plus 4
  for the function selector: every query of a run carries it, and the script issues the
  query with it once the calls before it have resolved. The encoding has 64 bytes of
  offset and length and the string padded to a multiple of 32; for the greeting of the
  script the argument is 100.
\<close>

theorem calldata_length_is_encoding_plus_selector:
  "(\<forall>n. Call (GetTxnSubmissionPrice n) \<in> set (fst (script (greeter_main_with greeting env)))
        \<longrightarrow> n = length (abi_encode_string_bytes greeting) + 4)
   \<and> (resolved_before 12 (greeter_answers env) \<longrightarrow>
        Call (GetTxnSubmissionPrice (length (abi_encode_string_bytes greeting) + 4))
          \<in> set (fst (script (greeter_main_with greeting env))))
   \<and> hexDataLength (abi_encode_string greeting) = Some (length (abi_encode_string_bytes greeting))
   \<and> length (abi_encode_string_bytes greeting) = 64 + 32 * ((length greeting + 31) div 32)
   \<and> (\<forall>n. Call (GetTxnSubmissionPrice n) \<in> set (fst (greeter env)) \<longrightarrow> n = 100)
   \<and> (resolved_before 12 (greeter_answers env) \<longrightarrow>
        Call (GetTxnSubmissionPrice 100) \<in> set (fst (greeter env)))"
proof -
  have len: "hexDataLength (abi_encode_string g) = Some (length (abi_encode_string_bytes g))" for g
    by (simp add: abi_encode_string_def hexDataLength_hexlify abi_encode_string_bytes_lt)
  have arg: "n = length (abi_encode_string_bytes g) + 4"
    if "Call (GetTxnSubmissionPrice n) \<in> set (fst (script (greeter_main_with g env)))" for n g
    using that
    by (auto simp add: greeter_main_with_def quiet_in_script in_run Let_def len plus_number_def
        split: sum.splits option.splits prod.splits)
  have sent: "Call (GetTxnSubmissionPrice (length (abi_encode_string_bytes g) + 4))
                \<in> set (fst (script (greeter_main_with g env)))"
    if "resolved_before 12 (greeter_answers env)" for g
    using that
    by (clarsimp simp add: greeter_answers_def answers_simps)
       (simp add: greeter_main_with_def quiet_in_script in_run Let_def len plus_number_def)
  have l96: "length (abi_encode_string_bytes newGreeting) = 96"
    by (simp add: length_abi_encode_string_bytes newGreeting_def)
  have 1: "\<forall>n. Call (GetTxnSubmissionPrice n) \<in> set (fst (script (greeter_main_with greeting env)))
        \<longrightarrow> n = length (abi_encode_string_bytes greeting) + 4"
    by (intro allI impI) (rule arg)
  have 2: "resolved_before 12 (greeter_answers env) \<longrightarrow>
        Call (GetTxnSubmissionPrice (length (abi_encode_string_bytes greeting) + 4))
          \<in> set (fst (script (greeter_main_with greeting env)))"
    by (rule impI) (rule sent)
  have 5: "\<forall>n. Call (GetTxnSubmissionPrice n) \<in> set (fst (greeter env)) \<longrightarrow> n = 100"
  proof (intro allI impI)
    fix n
    assume "Call (GetTxnSubmissionPrice n) \<in> set (fst (greeter env))"
    then have "Call (GetTxnSubmissionPrice n)
                      \<in> set (fst (script (greeter_main_with newGreeting env)))"
      by (simp add: greeter_def greeter_main_def)
    then have "n = length (abi_encode_string_bytes newGreeting) + 4"
      by (rule arg)
    with l96 show "n = 100" by simp
  qed
  have 6: "resolved_before 12 (greeter_answers env) \<longrightarrow>
        Call (GetTxnSubmissionPrice 100) \<in> set (fst (greeter env))"
  proof
    assume "resolved_before 12 (greeter_answers env)"
    then have "Call (GetTxnSubmissionPrice (length (abi_encode_string_bytes newGreeting) + 4))
                \<in> set (fst (script (greeter_main_with newGreeting env)))"
      by (rule sent)
    with l96 show "Call (GetTxnSubmissionPrice 100) \<in> set (fst (greeter env))"
      by (simp add: greeter_def greeter_main_def)
  qed
  from 1 2 len [of greeting] length_abi_encode_string_bytes [of greeting] 5 6
  show ?thesis by (intro conjI)
qed

theorem calldata_length_is_encoding_plus_selector_witness:
  "resolved_before 12 (greeter_answers sdk_ok)
   \<and> Call (GetTxnSubmissionPrice 100) \<in> set (fst (greeter sdk_ok))
   \<and> Call (GetTxnSubmissionPrice (length (abi_encode_string_bytes ''Hi'') + 4))
        \<in> set (fst (script (greeter_main_with ''Hi'' sdk_ok)))
   \<and> length (abi_encode_string_bytes ''Hi'') = 96
   \<and> length (abi_encode_string_bytes newGreeting) = 96
   \<and> hexDataLength (abi_encode_string newGreeting) = Some 96"
proof -
  note inst = calldata_length_is_encoding_plus_selector [of newGreeting sdk_ok]
  note hi = calldata_length_is_encoding_plus_selector [of "''Hi''" sdk_ok]
  have r: "resolved_before 12 (greeter_answers sdk_ok)"
    by (simp add: greeter_answers_def answers_simps sdk_ok_def)
  have len: "length (abi_encode_string_bytes newGreeting) = 96"
    using inst [THEN conjunct2, THEN conjunct2, THEN conjunct2, THEN conjunct1]
    by (simp add: newGreeting_def)
  have lhi: "length (abi_encode_string_bytes ''Hi'') = 96"
    using hi [THEN conjunct2, THEN conjunct2, THEN conjunct2, THEN conjunct1]
    by simp
  have hex: "hexDataLength (abi_encode_string newGreeting) = Some 96"
    using inst [THEN conjunct2, THEN conjunct2, THEN conjunct1]
    by (simp only: len)
  have c: "Call (GetTxnSubmissionPrice 100) \<in> set (fst (greeter sdk_ok))"
    by (rule inst [THEN conjunct2, THEN conjunct2, THEN conjunct2, THEN conjunct2,
          THEN conjunct2, THEN mp, OF r])
  have d: "Call (GetTxnSubmissionPrice (length (abi_encode_string_bytes ''Hi'') + 4))
        \<in> set (fst (script (greeter_main_with ''Hi'' sdk_ok)))"
    by (rule hi [THEN conjunct2, THEN conjunct1, THEN mp, OF r])
  from r c d lhi len hex show ?thesis
    by (intro conjI)
qed

text \<open>
  C10. Given that the aggregator returns round data for the round id,
  \<open>getHistoricalPrice\<close> reverts if and only if the returned timestamp is zero, and then
  with the message "Round not completed!"; otherwise it returns the aggregator's five
  values unchanged. (When the aggregator itself reverts there is no returned timestamp,
  and the call reverts with the aggregator's reason.)
\<close>

theorem getHistoricalPrice_reverts_iff_timestamp_zero:
  assumes "getRoundData roundId = Inr d"
  shows "((\<exists>r. getHistoricalPrice getRoundData roundId = Inl r) \<longleftrightarrow> timestamp d = 0)
       \<and> (timestamp d = 0 \<longrightarrow>
            getHistoricalPrice getRoundData roundId = Inl (Revert ''Round not completed!''))
       \<and> (timestamp d \<noteq> 0 \<longrightarrow> getHistoricalPrice getRoundData roundId = Inr d)"
  using assms by (auto simp add: getHistoricalPrice_def require_def word_greater_zero_iff)

theorem getHistoricalPrice_reverts_iff_timestamp_zero_witness:
  "sample_aggregator 1 = Inr sample_round
   \<and> sample_aggregator 2 = Inr \<lparr>roundID = 2, price = 0, startedAt = 0, timestamp = 0, answeredInRound = 0\<rparr>
   \<and> getHistoricalPrice sample_aggregator 1 = Inr sample_round
   \<and> getHistoricalPrice sample_aggregator 2 = Inl (Revert ''Round not completed!'')"
proof -
  have a1: "sample_aggregator 1 = Inr sample_round"
    by (simp add: sample_aggregator_def)
  have a2: "sample_aggregator 2 =
              Inr \<lparr>roundID = 2, price = 0, startedAt = 0, timestamp = 0, answeredInRound = 0\<rparr>"
    by (simp add: sample_aggregator_def)
  have t1: "timestamp sample_round \<noteq> 0"
    by (simp add: sample_round_def)
  from getHistoricalPrice_reverts_iff_timestamp_zero [of sample_aggregator 1 sample_round]
       getHistoricalPrice_reverts_iff_timestamp_zero [of sample_aggregator 2
         "\<lparr>roundID = 2, price = 0, startedAt = 0, timestamp = 0, answeredInRound = 0\<rparr>"]
       a1 a2 t1
  show ?thesis by simp
qed

end
